theory Spec2Isabelle
  imports Complex_Main "HOL-Library.Multiset"
begin

section \<open>The fragment of AQL that the analytics queries use\<close>

text \<open>
  The analytics of this repository are AQL queries held in TypeScript template strings
  (\<^verbatim>\<open>AnalyticsService\<close>, \<^verbatim>\<open>InitiativeService\<close>); what they compute is what
  ArangoDB evaluates. Numbers are modelled as rationals (the arithmetic of the queries is
  \<open>+\<close>, \<open>-\<close>, \<open>*\<close>, \<open>/\<close>, \<open>ABS\<close> and comparisons; rounding of doubles is not modelled).
  A nullable number is a \<open>rat option\<close>, \<open>None\<close> being AQL's \<open>null\<close>; an attribute
  that a document does not have reads as \<open>null\<close>.
\<close>

definition num :: "rat option \<Rightarrow> rat" where
  \<comment> \<open>the cast that AQL's arithmetic operators apply to an operand: \<open>null\<close> counts as 0\<close>
  "num v = (case v of None \<Rightarrow> 0 | Some x \<Rightarrow> x)"

definition aql_div :: "rat \<Rightarrow> rat \<Rightarrow> rat option" where
  \<comment> \<open>\<open>a / b\<close>: a division by zero yields \<open>null\<close> (and a warning), not an error\<close>
  "aql_div a b = (if b = 0 then None else Some (a / b))"

definition non_null :: "'a option list \<Rightarrow> 'a list" where
  "non_null vs = concat (map (\<lambda>v. case v of None \<Rightarrow> [] | Some x \<Rightarrow> [x]) vs)"

definition AVG :: "rat option list \<Rightarrow> rat option" where
  \<comment> \<open>\<open>AVG(array)\<close>: \<open>null\<close> members are ignored; \<open>null\<close> when nothing is left\<close>
  "AVG vs = (let xs = non_null vs
             in if xs = [] then None else Some (sum_list xs / rat_of_nat (length xs)))"

definition PRODUCT :: "rat option list \<Rightarrow> rat" where
  \<comment> \<open>\<open>PRODUCT(array)\<close>: \<open>null\<close> members are ignored; the empty product is 1\<close>
  "PRODUCT vs = prod_list (non_null vs)"

definition or_else :: "rat option \<Rightarrow> rat \<Rightarrow> rat" where
  \<comment> \<open>\<open>a || b\<close> with a number \<open>b\<close>: \<open>a\<close> when it is truthy; \<open>null\<close> and 0 are falsy\<close>
  "or_else a b = (case a of None \<Rightarrow> b | Some x \<Rightarrow> if x = 0 then b else x)"

definition aql_gt :: "rat option \<Rightarrow> rat \<Rightarrow> bool" where
  \<comment> \<open>\<open>a > b\<close> with a number \<open>b\<close>: \<open>null\<close> sorts below every number\<close>
  "aql_gt a b = (case a of None \<Rightarrow> False | Some x \<Rightarrow> x > b)"

section \<open>Documents, edges and the store\<close>

text \<open>
  A document identifier \<^verbatim>\<open>_id\<close> is the string \<^verbatim>\<open>collection/key\<close>; it is kept
  split as the pair of the collection name and the \<^verbatim>\<open>_key\<close>. So
  \<^verbatim>\<open>v._id LIKE 'initiatives/%'\<close> is \<open>fst id = ''initiatives''\<close> and
  \<^verbatim>\<open>SPLIT(node._id, '/')[0]\<close> is \<open>fst id\<close>. A document carries the attributes the
  queries read (models/types.ts), each optional as documents are schemaless.
\<close>

type_synonym doc_id = "string \<times> string"

record document =
  dkey :: string
  dname :: "string option"
  ddescription :: "string option"
  dtype :: "string option"
  dvalue :: "rat option"
  dtarget :: "rat option"
  ddepartment :: "string option"
  dstatus :: "string option"
  dwellnessScore :: "rat option"
  dengagementLevel :: "rat option"
  dintendedOutcome :: "string option"

record edge =
  eid :: doc_id
  efrom :: doc_id
  eto :: doc_id
  strength :: "rat option"

text \<open>The collections that \<^verbatim>\<open>ArangoConnection.initializeCollections\<close> creates.\<close>

record store =
  initiatives :: "document list"
  outcomes :: "document list"
  employees :: "document list"
  metrics :: "document list"
  departments :: "document list"
  events :: "document list"
  causes :: "edge list"
  participates_in :: "edge list"
  measures :: "edge list"
  belongs_to :: "edge list"
  influences :: "edge list"

definition collection :: "store \<Rightarrow> string \<Rightarrow> document list" where
  "collection s c =
     (if c = ''initiatives'' then initiatives s
      else if c = ''outcomes'' then outcomes s
      else if c = ''employees'' then employees s
      else if c = ''metrics'' then metrics s
      else if c = ''departments'' then departments s
      else if c = ''events'' then events s
      else [])"

text \<open>
  A vertex as a query sees it: the document with its identifier, or \<open>null\<close>.
  Reading an attribute of \<open>null\<close> gives \<open>null\<close>.
\<close>

type_synonym vertex = "(doc_id \<times> document) option"

definition attr :: "(document \<Rightarrow> 'a option) \<Rightarrow> vertex \<Rightarrow> 'a option" where
  "attr f v = (case v of None \<Rightarrow> None | Some x \<Rightarrow> f (snd x))"

definition v_id :: "vertex \<Rightarrow> doc_id option" where
  "v_id v = map_option fst v"

definition v_key :: "vertex \<Rightarrow> string option" where
  "v_key v = map_option (\<lambda>x. snd (fst x)) v"

definition DOCUMENT :: "store \<Rightarrow> string \<Rightarrow> string \<Rightarrow> vertex" where
  \<comment> \<open>\<open>DOCUMENT(collection, key)\<close>: the document of that collection with that
      \<^verbatim>\<open>_key\<close>, \<open>null\<close> when there is none\<close>
  "DOCUMENT s c k = map_option (\<lambda>d. ((c, k), d)) (find (\<lambda>d. dkey d = k) (collection s c))"

definition DOCUMENT_id :: "store \<Rightarrow> doc_id \<Rightarrow> vertex" where
  \<comment> \<open>\<open>DOCUMENT(id)\<close>\<close>
  "DOCUMENT_id s i = DOCUMENT s (fst i) (snd i)"

section \<open>Graph traversal\<close>

text \<open>
  \<^verbatim>\<open>FOR v, e, p IN 1..n <direction> start <edges>\<close> with the default options
  (depth first, \<^verbatim>\<open>uniqueEdges: "path"\<close>, \<^verbatim>\<open>uniqueVertices: "none"\<close>): every path of
  1 to \<open>n\<close> edges that starts at \<open>start\<close> and uses no edge twice is produced, each with
  its last vertex. A vertex reached along several paths is produced once per path. Edges are
  followed by their \<^verbatim>\<open>_from\<close> and \<^verbatim>\<open>_to\<close>; the vertex document is looked up when the
  path is produced and is \<open>null\<close> when it does not exist. A \<open>null\<close> start vertex
  yields no path (and a warning). In direction \<^verbatim>\<open>ANY\<close> an edge from a vertex to itself
  is followed once. All traversals of the services start at depth 1, so the lower bound of
  the depth range is not a parameter.
\<close>

datatype direction = OUTBOUND | INBOUND | ANY

type_synonym step = "edge \<times> doc_id"

definition steps :: "direction \<Rightarrow> edge list \<Rightarrow> doc_id \<Rightarrow> step list" where
  "steps dir E cur =
     (case dir of
        OUTBOUND \<Rightarrow> map (\<lambda>e. (e, eto e)) (filter (\<lambda>e. efrom e = cur) E)
      | INBOUND \<Rightarrow> map (\<lambda>e. (e, efrom e)) (filter (\<lambda>e. eto e = cur) E)
      | ANY \<Rightarrow> map (\<lambda>e. (e, eto e)) (filter (\<lambda>e. efrom e = cur) E)
             @ map (\<lambda>e. (e, efrom e)) (filter (\<lambda>e. eto e = cur \<and> efrom e \<noteq> cur) E))"

definition unused :: "step list \<Rightarrow> step \<Rightarrow> bool" where
  "unused p st = (eid (fst st) \<notin> set (map (\<lambda>x. eid (fst x)) p))"

fun walks :: "direction \<Rightarrow> edge list \<Rightarrow> nat \<Rightarrow> doc_id \<Rightarrow> step list \<Rightarrow> (doc_id \<times> step list) list" where
  "walks dir E 0 cur p = []"
| "walks dir E (Suc n) cur p =
     concat (map (\<lambda>st. (snd st, p @ [st]) # walks dir E n (snd st) (p @ [st]))
                 (filter (unused p) (steps dir E cur)))"

definition TRAVERSAL :: "store \<Rightarrow> nat \<Rightarrow> direction \<Rightarrow> vertex \<Rightarrow> edge list \<Rightarrow> (vertex \<times> step list) list" where
  "TRAVERSAL s n dir start E =
     (case start of
        None \<Rightarrow> []
      | Some x \<Rightarrow> map (\<lambda>w. (DOCUMENT_id s (fst w), snd w)) (walks dir E n (fst x) []))"

section \<open>AnalyticsService\<close>

text \<open>
  No method of the services raises: a query returns its rows, and
  \<^verbatim>\<open>results[0] || null\<close> is the first row or \<open>null\<close>. The result type still has a
  place for the error kinds the specification names, so that their absence can be stated.
\<close>

datatype error = NotFoundError | ValidationError | DanglingReferenceError

definition first_or_null :: "'a list \<Rightarrow> 'a option" where
  \<comment> \<open>\<^verbatim>\<open>results[0] || null\<close>; a row is an object, hence truthy\<close>
  "first_or_null rows = (case rows of [] \<Rightarrow> None | r # _ \<Rightarrow> Some r)"

subsection \<open>calculateIntentionRealityGap\<close>

text \<open>
  \<^verbatim>\<open>analysis\<close> is a sentence built by \<^verbatim>\<open>CONCAT\<close> from constant text and
  three varying parts; the record keeps the varying parts: the initiative's name, the
  classification word and the number of unintended outcomes.
\<close>

record IntentionRealityGap =
  initiativeId :: "string option"
  initiativeName :: "string option"
  intendedOutcome :: "string option"
  actualOutcomes :: "vertex list"
  gapScore :: rat
  unintendedConsequences :: "vertex list"
  analysis :: "string option \<times> string \<times> nat"

definition metricGaps :: "vertex list \<Rightarrow> rat option list" where
  \<comment> \<open>\<^verbatim>\<open>FOR m IN metrics FILTER m.target != null AND m.value != null
        RETURN ABS(m.value - m.target) / m.target\<close>\<close>
  "metricGaps ms =
     map (\<lambda>m. aql_div \<bar>num (attr dvalue m) - num (attr dtarget m)\<bar> (num (attr dtarget m)))
         (filter (\<lambda>m. attr dtarget m \<noteq> None \<and> attr dvalue m \<noteq> None) ms)"

definition avgMetricGap :: "vertex list \<Rightarrow> rat option" where
  \<comment> \<open>\<^verbatim>\<open>LENGTH(metrics) > 0 ? AVG(...) : 0\<close>\<close>
  "avgMetricGap ms = (if length ms > 0 then AVG (metricGaps ms) else Some 0)"

definition gap_intended :: "store \<Rightarrow> vertex \<Rightarrow> vertex list" where
  "gap_intended s initiative =
     filter (\<lambda>v. attr dtype v = Some ''intended'')
            (map fst (TRAVERSAL s 1 OUTBOUND initiative (causes s)))"

definition gap_actual :: "store \<Rightarrow> vertex \<Rightarrow> vertex list" where
  "gap_actual s initiative =
     filter (\<lambda>v. attr dtype v \<in> {Some ''unintended'', Some ''emergent''})
            (map fst (TRAVERSAL s 2 OUTBOUND initiative (causes s)))"

definition gap_metrics :: "store \<Rightarrow> vertex \<Rightarrow> vertex list" where
  "gap_metrics s initiative = map fst (TRAVERSAL s 1 OUTBOUND initiative (measures s))"

definition rawGapScore :: "vertex list \<Rightarrow> vertex list \<Rightarrow> vertex list \<Rightarrow> rat" where
  \<comment> \<open>the query's variable \<^verbatim>\<open>gapScore\<close>, before \<^verbatim>\<open>MIN([gapScore, 100])\<close>\<close>
  "rawGapScore intended actual ms =
     rat_of_nat (length actual) * 10
     + num (avgMetricGap ms) * 50
     + (if length intended = 0 then 25 else 0)"

definition classify :: "rat \<Rightarrow> string" where
  "classify g = (if g > 75 then ''severe'' else if g > 50 then ''significant'' else ''moderate'')"

definition gap_query :: "store \<Rightarrow> string \<Rightarrow> IntentionRealityGap list" where
  "gap_query s k =
     (let initiative = DOCUMENT s ''initiatives'' k;
          intended = gap_intended s initiative;
          actual = gap_actual s initiative;
          ms = gap_metrics s initiative;
          g = rawGapScore intended actual ms
      in [\<lparr> initiativeId = v_key initiative,
            initiativeName = attr dname initiative,
            intendedOutcome = attr dintendedOutcome initiative,
            actualOutcomes = actual,
            gapScore = min g 100,
            unintendedConsequences = actual,
            analysis = (attr dname initiative, classify g, length actual) \<rparr>])"

definition calculateIntentionRealityGap :: "store \<Rightarrow> string \<Rightarrow> error + IntentionRealityGap option" where
  "calculateIntentionRealityGap s k = Inr (first_or_null (gap_query s k))"

subsection \<open>traceCausalPath\<close>

text \<open>
  The identifiers \<^verbatim>\<open>fromId\<close> and \<^verbatim>\<open>toId\<close> are \<^verbatim>\<open>_id\<close> values;
  \<^verbatim>\<open>maxDepth\<close> is 5 when the caller gives none.
  \<^verbatim>\<open>p.vertices\<close> is the start vertex followed by the vertex of every step,
  \<^verbatim>\<open>p.edges\<close> the edges of the steps. The methods that follow are modelled by the rows
  they resolve to.
\<close>

record PathNode =
  node :: "doc_id option"
  node_type :: "string option"
  label :: "string option"

record CausalPath =
  path_from :: doc_id
  path_to :: doc_id
  path :: "PathNode list"
  totalStrength :: rat
  path_length :: nat

definition or_else_str :: "string option \<Rightarrow> string option \<Rightarrow> string option" where
  \<comment> \<open>\<open>a || b\<close> on strings: \<open>null\<close> and the empty string are falsy\<close>
  "or_else_str a b = (case a of None \<Rightarrow> b | Some x \<Rightarrow> if x = [] then b else a)"

definition p_vertices :: "store \<Rightarrow> vertex \<Rightarrow> step list \<Rightarrow> vertex list" where
  "p_vertices s start p = start # map (\<lambda>st. DOCUMENT_id s (snd st)) p"

definition p_edges :: "step list \<Rightarrow> edge list" where
  "p_edges p = map fst p"

definition path_node :: "vertex \<Rightarrow> PathNode" where
  "path_node v = \<lparr> node = v_id v, node_type = map_option fst (v_id v),
                   label = or_else_str (attr dname v) (attr ddescription v) \<rparr>"

definition path_strength :: "step list \<Rightarrow> rat" where
  \<comment> \<open>\<^verbatim>\<open>PRODUCT(FOR edge IN p.edges RETURN edge.strength || 0.5)\<close>\<close>
  "path_strength p = PRODUCT (map (\<lambda>e. Some (or_else (strength e) (1 / 2))) (p_edges p))"

definition causal_paths :: "store \<Rightarrow> doc_id \<Rightarrow> doc_id \<Rightarrow> nat \<Rightarrow> (vertex \<times> step list) list" where
  \<comment> \<open>the rows of the traversal that pass \<^verbatim>\<open>FILTER v._id == toId\<close>\<close>
  "causal_paths s fromId toId maxDepth =
     filter (\<lambda>r. v_id (fst r) = Some toId)
            (TRAVERSAL s maxDepth OUTBOUND (DOCUMENT_id s fromId) (causes s))"

definition report_path :: "store \<Rightarrow> doc_id \<Rightarrow> doc_id \<Rightarrow> step list \<Rightarrow> CausalPath" where
  "report_path s fromId toId p =
     \<lparr> path_from = fromId, path_to = toId,
       path = map path_node (p_vertices s (DOCUMENT_id s fromId) p),
       totalStrength = path_strength p,
       path_length = length (p_vertices s (DOCUMENT_id s fromId) p) \<rparr>"

definition traceCausalPath :: "store \<Rightarrow> doc_id \<Rightarrow> doc_id \<Rightarrow> nat \<Rightarrow> CausalPath list" where
  "traceCausalPath s fromId toId maxDepth =
     map (\<lambda>r. report_path s fromId toId (snd r)) (causal_paths s fromId toId maxDepth)"

subsection \<open>findGameableMetrics\<close>

record GameableMetric =
  metric :: vertex
  gap :: "rat option"
  gapPercentage :: rat
  measuredEntities :: "vertex list"
  suspicionLevel :: string

definition metric_vertex :: "document \<Rightarrow> vertex" where
  \<comment> \<open>a document of the collection \<^verbatim>\<open>metrics\<close>, as \<^verbatim>\<open>FOR metric IN metrics\<close> binds it\<close>
  "metric_vertex m = Some ((''metrics'', dkey m), m)"

definition metric_gap :: "document \<Rightarrow> rat option" where
  \<comment> \<open>\<^verbatim>\<open>ABS(metric.value - metric.target) / metric.target\<close>\<close>
  "metric_gap m = aql_div \<bar>num (dvalue m) - num (dtarget m)\<bar> (num (dtarget m))"

definition suspicion :: "rat option \<Rightarrow> string" where
  "suspicion g = (if aql_gt g (9 / 10) then ''EXTREME''
                  else if aql_gt g (7 / 10) then ''HIGH'' else ''MODERATE'')"

definition gameable_row :: "store \<Rightarrow> document \<Rightarrow> GameableMetric" where
  "gameable_row s m =
     \<lparr> metric = metric_vertex m,
       gap = metric_gap m,
       gapPercentage = num (metric_gap m) * 100,
       measuredEntities = map fst (TRAVERSAL s 1 OUTBOUND (metric_vertex m) (measures s)),
       suspicionLevel = suspicion (metric_gap m) \<rparr>"

definition gameable :: "rat \<Rightarrow> document \<Rightarrow> bool" where
  \<comment> \<open>the two \<^verbatim>\<open>FILTER\<close>s of the query\<close>
  "gameable threshold m =
     ((dtarget m \<noteq> None \<and> dvalue m \<noteq> None) \<and> aql_gt (metric_gap m) threshold)"

definition findGameableMetrics :: "store \<Rightarrow> rat \<Rightarrow> GameableMetric list" where
  \<comment> \<open>\<^verbatim>\<open>SORT gap DESC\<close>: the order of rows with equal gaps is not fixed by AQL;
      here they keep the order of the collection. The threshold is 0.5 when the caller
      gives none.\<close>
  "findGameableMetrics s threshold =
     sort_key (\<lambda>r. - num (gap r)) (map (gameable_row s) (filter (gameable threshold) (metrics s)))"

subsection \<open>calculateDepartmentSynergy\<close>

record DepartmentSynergy =
  department :: vertex
  employeeCount :: nat
  avgWellness :: "rat option"
  avgEngagement :: "rat option"
  initiativeSuccessRate :: "rat option"
  synergyScore :: rat
  synergyGrade :: string
  ironyLevel :: string

definition dept_employees :: "store \<Rightarrow> vertex \<Rightarrow> document list" where
  \<comment> \<open>\<^verbatim>\<open>FOR emp IN employees FILTER emp.department == dept.name RETURN emp\<close>\<close>
  "dept_employees s dept = filter (\<lambda>emp. ddepartment emp = attr dname dept) (employees s)"

definition dept_initiatives :: "store \<Rightarrow> vertex \<Rightarrow> document list" where
  "dept_initiatives s dept = filter (\<lambda>init. ddepartment init = attr dname dept) (initiatives s)"

definition avg_defined :: "(document \<Rightarrow> rat option) \<Rightarrow> document list \<Rightarrow> rat option" where
  \<comment> \<open>\<^verbatim>\<open>AVG(FOR emp IN employees FILTER emp.f != null RETURN emp.f)\<close>\<close>
  "avg_defined f emps = AVG (map f (filter (\<lambda>emp. f emp \<noteq> None) emps))"

definition count_status :: "string \<Rightarrow> document list \<Rightarrow> nat" where
  \<comment> \<open>\<^verbatim>\<open>LENGTH(FOR init IN initiatives FILTER init.status == st RETURN 1)\<close>\<close>
  "count_status st inits = length (filter (\<lambda>init. dstatus init = Some st) inits)"

definition success_rate :: "nat \<Rightarrow> nat \<Rightarrow> rat option" where
  \<comment> \<open>\<^verbatim>\<open>completed / (completed + abandoned + 1)\<close>\<close>
  "success_rate completed abandoned =
     aql_div (rat_of_nat completed) (rat_of_nat (completed + abandoned + 1))"

definition grade :: "rat \<Rightarrow> string" where
  "grade x = (if x > 80 then ''SYNERGIZED'' else if x > 60 then ''ALIGNED'' else ''SILOED'')"

definition synergy_query :: "store \<Rightarrow> string \<Rightarrow> DepartmentSynergy list" where
  "synergy_query s k =
     (let dept = DOCUMENT s ''departments'' k;
          emps = dept_employees s dept;
          inits = dept_initiatives s dept;
          aw = avg_defined dwellnessScore emps;
          ae = avg_defined dengagementLevel emps;
          completedInitiatives = count_status ''completed'' inits;
          abandonedInitiatives = count_status ''abandoned'' inits;
          sc = num aw * (3 / 10) + num ae * (3 / 10)
               + num (success_rate completedInitiatives abandonedInitiatives) * 40
      in [\<lparr> department = dept,
            employeeCount = length emps,
            avgWellness = aw,
            avgEngagement = ae,
            initiativeSuccessRate = success_rate completedInitiatives abandonedInitiatives,
            synergyScore = sc,
            synergyGrade = grade sc,
            ironyLevel = ''MAXIMUM'' \<rparr>])"

definition calculateDepartmentSynergy :: "store \<Rightarrow> string \<Rightarrow> error + DepartmentSynergy option" where
  "calculateDepartmentSynergy s k = Inr (first_or_null (synergy_query s k))"

subsection \<open>detectMetricTheater\<close>

text \<open>
  \<^verbatim>\<open>message\<close> is constant text around the metric's name; the record keeps the name.
\<close>

record TheaterMetric =
  theater_metric :: vertex
  message :: "string option"
  theaterScore :: rat

definition causal_graph :: "store \<Rightarrow> edge list" where
  \<comment> \<open>the edge collections of the graph that \<^verbatim>\<open>ArangoConnection.initializeGraphs\<close> defines\<close>
  "causal_graph s = causes s @ participates_in s @ measures s @ belongs_to s @ influences s"

definition linkedInitiatives :: "store \<Rightarrow> document \<Rightarrow> vertex list" where
  \<comment> \<open>\<^verbatim>\<open>FOR v, e IN 1..2 ANY metric GRAPH 'causal_graph'
        FILTER v._id LIKE 'initiatives/%' RETURN v\<close>\<close>
  "linkedInitiatives s m =
     filter (\<lambda>v. case v_id v of None \<Rightarrow> False | Some i \<Rightarrow> fst i = ''initiatives'')
            (map fst (TRAVERSAL s 2 ANY (metric_vertex m) (causal_graph s)))"

definition detectMetricTheater :: "store \<Rightarrow> TheaterMetric list" where
  "detectMetricTheater s =
     map (\<lambda>m. \<lparr> theater_metric = metric_vertex m, message = dname m, theaterScore = 100 \<rparr>)
         (filter (\<lambda>m. length (linkedInitiatives s m) = 0) (metrics s))"

section \<open>InitiativeService\<close>

definition findUnintendedConsequences :: "store \<Rightarrow> string \<Rightarrow> vertex list" where
  \<comment> \<open>\<^verbatim>\<open>FOR v, e, p IN 1..3 OUTBOUND DOCUMENT('initiatives', id) causes
        FILTER v._id LIKE 'outcomes/%' FILTER v.type == 'unintended' RETURN DISTINCT v\<close>;
      the order in which \<^verbatim>\<open>DISTINCT\<close> leaves the rows is not fixed by AQL\<close>
  "findUnintendedConsequences s k =
     remdups
       (filter (\<lambda>v. attr dtype v = Some ''unintended'')
          (filter (\<lambda>v. case v_id v of None \<Rightarrow> False | Some i \<Rightarrow> fst i = ''outcomes'')
             (map fst (TRAVERSAL s 3 OUTBOUND (DOCUMENT s ''initiatives'' k) (causes s)))))"

section \<open>What the specification says, for comparison\<close>

definition clamp :: "rat \<Rightarrow> rat \<Rightarrow> rat \<Rightarrow> rat" where
  "clamp x lo hi = max lo (min x hi)"

definition qualifying :: "vertex list \<Rightarrow> vertex list" where
  \<comment> \<open>the metrics that have both value and target set, those with target 0 excluded\<close>
  "qualifying ms =
     filter (\<lambda>m. attr dvalue m \<noteq> None \<and> attr dtarget m \<noteq> None \<and> attr dtarget m \<noteq> Some 0) ms"

definition metricGap :: "vertex \<Rightarrow> rat" where
  \<comment> \<open>\<open>|m.value - m.target| / m.target\<close>\<close>
  "metricGap m = \<bar>num (attr dvalue m) - num (attr dtarget m)\<bar> / num (attr dtarget m)"

definition mean :: "rat list \<Rightarrow> rat" where
  \<comment> \<open>the mean of a list, 0 for the empty list\<close>
  "mean xs = (if xs = [] then 0 else sum_list xs / rat_of_nat (length xs))"

definition spec_avgMetricGap :: "vertex list \<Rightarrow> rat" where
  \<comment> \<open>the mean of \<open>metricGap\<close> over the set of qualifying metrics, each metric once;
      0 when the set is empty\<close>
  "spec_avgMetricGap ms = mean (map metricGap (qualifying (remdups ms)))"

definition spec_gapScore :: "vertex list \<Rightarrow> vertex list \<Rightarrow> vertex list \<Rightarrow> rat" where
  \<comment> \<open>\<open>clamp(|actual| * 10 + avgMetricGap * 50 + (|intended| == 0 ? 25 : 0), 0, 100)\<close>,
      the outcomes and the metrics counted as sets of vertices\<close>
  "spec_gapScore intended actual ms =
     clamp (rat_of_nat (length (remdups actual)) * 10
            + spec_avgMetricGap ms * 50
            + (if remdups intended = [] then 25 else 0)) 0 100"

definition spec_gap :: "store \<Rightarrow> string \<Rightarrow> rat" where
  "spec_gap s k =
     (let initiative = DOCUMENT s ''initiatives'' k
      in spec_gapScore (gap_intended s initiative) (gap_actual s initiative)
                       (gap_metrics s initiative))"

definition strength_product :: "step list \<Rightarrow> rat" where
  \<comment> \<open>the product of the strengths of the edges of a path, as stored\<close>
  "strength_product p = prod_list (map (\<lambda>e. num (strength e)) (p_edges p))"

definition highest_cleared :: "rat \<Rightarrow> string option" where
  \<comment> \<open>MODERATE (\<open>> 0.5\<close>), HIGH (\<open>> 0.7\<close>), EXTREME (\<open>> 0.9\<close>): the highest threshold cleared\<close>
  "highest_cleared g =
     (if g > 9 / 10 then Some ''EXTREME''
      else if g > 7 / 10 then Some ''HIGH''
      else if g > 1 / 2 then Some ''MODERATE'' else None)"

definition spec_gameable :: "rat \<Rightarrow> document \<Rightarrow> bool" where
  \<comment> \<open>value and target set, target not 0, and \<open>|value - target| / target\<close> above the threshold\<close>
  "spec_gameable threshold m =
     (dvalue m \<noteq> None \<and> dtarget m \<noteq> None \<and> dtarget m \<noteq> Some 0
      \<and> \<bar>num (dvalue m) - num (dtarget m)\<bar> / num (dtarget m) > threshold)"

definition department_members :: "document \<Rightarrow> document list \<Rightarrow> document list" where
  \<comment> \<open>the employees (or initiatives) whose department field is the department's name\<close>
  "department_members d xs = filter (\<lambda>x. ddepartment x = dname d) xs"

definition defined_scores :: "(document \<Rightarrow> rat option) \<Rightarrow> document list \<Rightarrow> rat list" where
  \<comment> \<open>the scores of those that have one\<close>
  "defined_scores f xs = non_null (map f xs)"

definition with_status :: "string \<Rightarrow> document list \<Rightarrow> nat" where
  "with_status st xs = length (filter (\<lambda>x. dstatus x = Some st) xs)"

definition spec_successRatio :: "store \<Rightarrow> document \<Rightarrow> rat" where
  \<comment> \<open>\<open>completed / (completed + abandoned + 1)\<close> over the department's initiatives\<close>
  "spec_successRatio s d =
     rat_of_nat (with_status ''completed'' (department_members d (initiatives s)))
     / rat_of_nat (with_status ''completed'' (department_members d (initiatives s))
                   + with_status ''abandoned'' (department_members d (initiatives s)) + 1)"

definition spec_synergyScore :: "store \<Rightarrow> document \<Rightarrow> rat" where
  \<comment> \<open>\<open>avgWellness * 0.3 + avgEngagement * 0.3 + successRatio * 40\<close>, each average being
      the mean of the defined scores of the department's employees, 0 when there is none\<close>
  "spec_synergyScore s d =
     mean (defined_scores dwellnessScore (department_members d (employees s))) * (3 / 10)
     + mean (defined_scores dengagementLevel (department_members d (employees s))) * (3 / 10)
     + spec_successRatio s d * 40"

definition spec_grade :: "rat \<Rightarrow> string" where
  \<comment> \<open>SYNERGIZED (\<open>> 80\<close>), ALIGNED (\<open>> 60\<close>), SILOED otherwise\<close>
  "spec_grade x = (if x > 80 then ''SYNERGIZED'' else if x > 60 then ''ALIGNED'' else ''SILOED'')"

definition neighbours :: "store \<Rightarrow> doc_id \<Rightarrow> doc_id list" where
  \<comment> \<open>one undirected hop over the edges of \<^verbatim>\<open>causal_graph\<close>\<close>
  "neighbours s x =
     map eto (filter (\<lambda>e. efrom e = x) (causal_graph s))
     @ map efrom (filter (\<lambda>e. eto e = x) (causal_graph s))"

definition within_two_hops :: "store \<Rightarrow> doc_id \<Rightarrow> doc_id list" where
  \<comment> \<open>what an undirected search of at most 2 hops reaches from \<open>x\<close>\<close>
  "within_two_hops s x = x # neighbours s x @ concat (map (neighbours s) (neighbours s x))"

definition is_initiative :: "store \<Rightarrow> doc_id \<Rightarrow> bool" where
  "is_initiative s i = (fst i = ''initiatives'' \<and> DOCUMENT_id s i \<noteq> None)"

definition theater :: "store \<Rightarrow> document \<Rightarrow> bool" where
  \<comment> \<open>no Initiative vertex within 2 undirected hops of the metric\<close>
  "theater s m = (filter (is_initiative s) (within_two_hops s (''metrics'', dkey m)) = [])"

definition unique_edge_ids :: "edge list \<Rightarrow> bool" where
  \<comment> \<open>ArangoDB keeps \<^verbatim>\<open>_id\<close> unique\<close>
  "unique_edge_ids E = distinct (map eid E)"

definition add_outcome :: "store \<Rightarrow> document \<Rightarrow> edge \<Rightarrow> store" where
  \<comment> \<open>saving one more outcome document and one more \<^verbatim>\<open>causes\<close> edge, as
      \<^verbatim>\<open>collection('outcomes').save\<close> and \<^verbatim>\<open>linkCause\<close> do\<close>
  "add_outcome s out e = s\<lparr> outcomes := outcomes s @ [out], causes := causes s @ [e] \<rparr>"

definition avoids :: "edge \<Rightarrow> doc_id \<times> step list \<Rightarrow> bool" where
  \<comment> \<open>the path of a traversal row does not use the edge\<close>
  "avoids e w = (eid e \<notin> set (map (\<lambda>x. eid (fst x)) (snd w)))"

section \<open>Stores used as examples\<close>

definition doc :: "string \<Rightarrow> document" where
  "doc k = \<lparr> dkey = k, dname = None, ddescription = None, dtype = None, dvalue = None,
             dtarget = None, ddepartment = None, dstatus = None, dwellnessScore = None,
             dengagementLevel = None, dintendedOutcome = None \<rparr>"

definition empty_store :: store where
  "empty_store = \<lparr> initiatives = [], outcomes = [], employees = [], metrics = [],
                   departments = [], events = [], causes = [], participates_in = [],
                   measures = [], belongs_to = [], influences = [] \<rparr>"

definition link :: "string \<Rightarrow> string \<Rightarrow> doc_id \<Rightarrow> doc_id \<Rightarrow> rat option \<Rightarrow> edge" where
  "link c k a b w = \<lparr> eid = (c, k), efrom = a, eto = b, strength = w \<rparr>"

definition I1 :: doc_id where "I1 = (''initiatives'', ''I1'')"
definition O1 :: doc_id where "O1 = (''outcomes'', ''O1'')"
definition O2 :: doc_id where "O2 = (''outcomes'', ''O2'')"
definition O3 :: doc_id where "O3 = (''outcomes'', ''O3'')"
definition M1 :: doc_id where "M1 = (''metrics'', ''M1'')"

text \<open>
  The scenario of the specification: initiative I1 causes O1 (intended) and O2 (unintended)
  and is measured by M1 (value 50, target 90).
\<close>

definition scenario_store :: store where
  "scenario_store = empty_store
     \<lparr> initiatives := [doc ''I1''],
       outcomes := [(doc ''O1'')\<lparr>dtype := Some ''intended''\<rparr>,
                    (doc ''O2'')\<lparr>dtype := Some ''unintended''\<rparr>],
       metrics := [(doc ''M1'')\<lparr>dvalue := Some 50, dtarget := Some 90\<rparr>],
       causes := [link ''causes'' ''c1'' I1 O1 (Some (1 / 2)),
                  link ''causes'' ''c2'' I1 O2 (Some (9 / 10))],
       measures := [link ''measures'' ''m1'' I1 M1 None] \<rparr>"

text \<open>An initiative whose only metric has a negative target (value 10, target -5).\<close>

definition negative_target_store :: store where
  "negative_target_store = empty_store
     \<lparr> initiatives := [doc ''I1''],
       metrics := [(doc ''M1'')\<lparr>dvalue := Some 10, dtarget := Some (- 5)\<rparr>],
       measures := [link ''measures'' ''m1'' I1 M1 None] \<rparr>"

text \<open>An initiative linked twice to the same unintended outcome (a direct and an indirect link).\<close>

definition linked_twice_store :: store where
  "linked_twice_store = empty_store
     \<lparr> initiatives := [doc ''I1''],
       outcomes := [(doc ''O1'')\<lparr>dtype := Some ''unintended''\<rparr>],
       causes := [link ''causes'' ''c1'' I1 O1 (Some (9 / 10)),
                  link ''causes'' ''c2'' I1 O1 (Some (1 / 2))] \<rparr>"

text \<open>
  An initiative with two \<^verbatim>\<open>measures\<close> edges to metric MA (value 80, target 100) and one
  to metric MB (value 20, target 100).
\<close>

definition MA :: doc_id where "MA = (''metrics'', ''MA'')"
definition MB :: doc_id where "MB = (''metrics'', ''MB'')"

definition MA_vertex :: vertex where
  "MA_vertex = Some (MA, (doc ''MA'')\<lparr>dvalue := Some 80, dtarget := Some 100\<rparr>)"

definition MB_vertex :: vertex where
  "MB_vertex = Some (MB, (doc ''MB'')\<lparr>dvalue := Some 20, dtarget := Some 100\<rparr>)"

definition measured_twice_store :: store where
  "measured_twice_store = empty_store
     \<lparr> initiatives := [doc ''I1''],
       metrics := [(doc ''MA'')\<lparr>dvalue := Some 80, dtarget := Some 100\<rparr>,
                   (doc ''MB'')\<lparr>dvalue := Some 20, dtarget := Some 100\<rparr>],
       measures := [link ''measures'' ''m1'' I1 MA None,
                    link ''measures'' ''m2'' I1 MA None,
                    link ''measures'' ''m3'' I1 MB None] \<rparr>"

text \<open>The chain of the unit test: I1 causes O1 (strength 0.8), O1 causes O2 (strength 0.7).\<close>

definition chain_store :: store where
  "chain_store = empty_store
     \<lparr> initiatives := [doc ''I1''],
       outcomes := [(doc ''O1'')\<lparr>dtype := Some ''intended''\<rparr>,
                    (doc ''O2'')\<lparr>dtype := Some ''unintended''\<rparr>],
       causes := [link ''causes'' ''c1'' I1 O1 (Some (4 / 5)),
                  link ''causes'' ''c2'' O1 O2 (Some (7 / 10))] \<rparr>"

text \<open>The same chain with strengths 0 and 0.5.\<close>

definition zero_strength_store :: store where
  "zero_strength_store = empty_store
     \<lparr> initiatives := [doc ''I1''],
       outcomes := [(doc ''O1'')\<lparr>dtype := Some ''intended''\<rparr>,
                    (doc ''O2'')\<lparr>dtype := Some ''unintended''\<rparr>],
       causes := [link ''causes'' ''c1'' I1 O1 (Some 0),
                  link ''causes'' ''c2'' O1 O2 (Some (1 / 2))] \<rparr>"

text \<open>The same chain with one strength absent and one strength 0.\<close>

definition no_strength_store :: store where
  "no_strength_store = empty_store
     \<lparr> initiatives := [doc ''I1''],
       outcomes := [(doc ''O1'')\<lparr>dtype := Some ''intended''\<rparr>,
                    (doc ''O2'')\<lparr>dtype := Some ''unintended''\<rparr>],
       causes := [link ''causes'' ''c1'' I1 O1 None,
                  link ''causes'' ''c2'' O1 O2 (Some 0)] \<rparr>"

definition chain_path :: "step list" where
  "chain_path = [(link ''causes'' ''c1'' I1 O1 (Some (4 / 5)), O1),
                 (link ''causes'' ''c2'' O1 O2 (Some (7 / 10)), O2)]"

definition no_strength_path :: "step list" where
  "no_strength_path = [(link ''causes'' ''c1'' I1 O1 None, O1),
                       (link ''causes'' ''c2'' O1 O2 (Some 0), O2)]"

definition O2_vertex :: vertex where
  "O2_vertex = Some (O2, (doc ''O2'')\<lparr>dtype := Some ''unintended''\<rparr>)"

text \<open>
  Two departments. Engineering is the department of the specification's scenario: wellness
  80 and 70, engagement 75 and 65, one completed and one abandoned initiative. Sales has
  two employees, one with a wellness score (40) and none with an engagement level, and one
  completed initiative.
\<close>

definition D1_doc :: document where
  "D1_doc = (doc ''D1'')\<lparr>dname := Some ''Engineering''\<rparr>"

definition D2_doc :: document where
  "D2_doc = (doc ''D2'')\<lparr>dname := Some ''Sales''\<rparr>"

definition department_store :: store where
  "department_store = empty_store
     \<lparr> departments := [D1_doc, D2_doc],
       employees := [(doc ''E1'')\<lparr>ddepartment := Some ''Engineering'',
                                  dwellnessScore := Some 80, dengagementLevel := Some 75\<rparr>,
                     (doc ''E3'')\<lparr>ddepartment := Some ''Sales'', dwellnessScore := Some 40\<rparr>,
                     (doc ''E2'')\<lparr>ddepartment := Some ''Engineering'',
                                  dwellnessScore := Some 70, dengagementLevel := Some 65\<rparr>,
                     (doc ''E4'')\<lparr>ddepartment := Some ''Sales''\<rparr>],
       initiatives := [(doc ''A'')\<lparr>ddepartment := Some ''Engineering'',
                                  dstatus := Some ''completed''\<rparr>,
                       (doc ''C'')\<lparr>ddepartment := Some ''Sales'',
                                  dstatus := Some ''completed''\<rparr>,
                       (doc ''B'')\<lparr>ddepartment := Some ''Engineering'',
                                  dstatus := Some ''abandoned''\<rparr>] \<rparr>"

text \<open>The metric M2 of the specification's scenario (value 95, target 90).\<close>

definition M2_doc :: document where
  "M2_doc = (doc ''M2'')\<lparr>dvalue := Some 95, dtarget := Some 90\<rparr>"

definition metric_store :: store where
  "metric_store = empty_store \<lparr> metrics := [M2_doc] \<rparr>"

text \<open>
  Metric M3 has no edge at all; metric M1 measures outcome O1, which initiative I1 causes.
\<close>

definition theater_store :: store where
  "theater_store = empty_store
     \<lparr> initiatives := [doc ''I1''],
       outcomes := [(doc ''O1'')\<lparr>dtype := Some ''intended''\<rparr>],
       metrics := [doc ''M3'', doc ''M1''],
       causes := [link ''causes'' ''c1'' I1 O1 (Some 1)],
       measures := [link ''measures'' ''m1'' M1 O1 None] \<rparr>"

text \<open>One more unintended outcome O3 for the scenario, caused by I1.\<close>

definition O3_doc :: document where
  "O3_doc = (doc ''O3'')\<lparr>dtype := Some ''unintended''\<rparr>"

definition O3_edge :: edge where
  "O3_edge = link ''causes'' ''c3'' I1 O3 (Some (1 / 2))"

section \<open>Evaluating the model\<close>

lemmas store_defs = empty_store_def doc_def link_def I1_def O1_def O2_def O3_def M1_def

lemma steps_Nil: "steps dir [] cur = []"
  by (cases dir) (simp_all add: steps_def)

lemma steps_out_Cons:
  "steps OUTBOUND (e # E) cur = (if efrom e = cur then [(e, eto e)] else []) @ steps OUTBOUND E cur"
  by (simp add: steps_def)

lemma walks_numeral:
  "walks dir E (numeral k) cur p =
     concat (map (\<lambda>st. (snd st, p @ [st]) # walks dir E (pred_numeral k) (snd st) (p @ [st]))
                 (filter (unused p) (steps dir E cur)))"
  by (simp add: numeral_eq_Suc)

lemmas eval_simps = steps_Nil steps_out_Cons walks_numeral unused_def TRAVERSAL_def
  DOCUMENT_id_def DOCUMENT_def collection_def attr_def num_def

lemma gap_query_row:
  "gap_query s k =
     [\<lparr> initiativeId = v_key (DOCUMENT s ''initiatives'' k),
        initiativeName = attr dname (DOCUMENT s ''initiatives'' k),
        intendedOutcome = attr dintendedOutcome (DOCUMENT s ''initiatives'' k),
        actualOutcomes = gap_actual s (DOCUMENT s ''initiatives'' k),
        gapScore = min (rawGapScore (gap_intended s (DOCUMENT s ''initiatives'' k))
                                    (gap_actual s (DOCUMENT s ''initiatives'' k))
                                    (gap_metrics s (DOCUMENT s ''initiatives'' k))) 100,
        unintendedConsequences = gap_actual s (DOCUMENT s ''initiatives'' k),
        analysis = (attr dname (DOCUMENT s ''initiatives'' k),
                    classify (rawGapScore (gap_intended s (DOCUMENT s ''initiatives'' k))
                                          (gap_actual s (DOCUMENT s ''initiatives'' k))
                                          (gap_metrics s (DOCUMENT s ''initiatives'' k))),
                    length (gap_actual s (DOCUMENT s ''initiatives'' k))) \<rparr>]"
  by (simp add: gap_query_def Let_def)

lemma gap_returns:
  "\<exists>r. calculateIntentionRealityGap s k = Inr (Some r)
     \<and> gapScore r = min (rawGapScore (gap_intended s (DOCUMENT s ''initiatives'' k))
                                     (gap_actual s (DOCUMENT s ''initiatives'' k))
                                     (gap_metrics s (DOCUMENT s ''initiatives'' k))) 100
     \<and> actualOutcomes r = gap_actual s (DOCUMENT s ''initiatives'' k)
     \<and> initiativeId r = v_key (DOCUMENT s ''initiatives'' k)
     \<and> fst (snd (analysis r)) = classify (rawGapScore (gap_intended s (DOCUMENT s ''initiatives'' k))
                                     (gap_actual s (DOCUMENT s ''initiatives'' k))
                                     (gap_metrics s (DOCUMENT s ''initiatives'' k)))"
  by (simp add: calculateIntentionRealityGap_def gap_query_row first_or_null_def)

subsection \<open>The gap score of an initiative with a negative metric target\<close>

lemma neg_doc: "DOCUMENT negative_target_store ''initiatives'' ''I1'' = Some (I1, doc ''I1'')"
  by (simp add: negative_target_store_def store_defs eval_simps)

lemma neg_intended: "gap_intended negative_target_store (Some (I1, doc ''I1'')) = []"
  by (simp add: gap_intended_def negative_target_store_def store_defs eval_simps)

lemma neg_actual: "gap_actual negative_target_store (Some (I1, doc ''I1'')) = []"
  by (simp add: gap_actual_def negative_target_store_def store_defs eval_simps)

lemma neg_metrics: "gap_metrics negative_target_store (Some (I1, doc ''I1''))
   = [Some (M1, (doc ''M1'')\<lparr>dvalue := Some 10, dtarget := Some (- 5)\<rparr>)]"
  by (simp add: gap_metrics_def negative_target_store_def store_defs eval_simps)

lemma neg_raw: "rawGapScore [] [] [Some (M1, (doc ''M1'')\<lparr>dvalue := Some 10, dtarget := Some (- 5)\<rparr>)] = -125"
  by (simp add: rawGapScore_def avgMetricGap_def metricGaps_def attr_def AVG_def non_null_def aql_div_def num_def doc_def)

lemma neg_spec: "spec_gapScore [] [] [Some (M1, (doc ''M1'')\<lparr>dvalue := Some 10, dtarget := Some (- 5)\<rparr>)] = 0"
  by (simp add: spec_gapScore_def spec_avgMetricGap_def clamp_def mean_def metricGap_def
      qualifying_def attr_def num_def doc_def)

text \<open>
  Claim C1: for every initiative, \<^verbatim>\<open>gapScore\<close> is
  \<open>clamp(|actual| * 10 + avgMetricGap * 50 + (|intended| == 0 ? 25 : 0), 0, 100)\<close>.
  The query takes \<^verbatim>\<open>MIN([gapScore, 100])\<close> only, and a metric with a negative target has a
  negative gap: for the initiative of \<open>negative_target_store\<close> (one metric, value 10,
  target -5, no outcome) the returned score is \<open>0 + (15 / -5) * 50 + 25 = -125\<close>, where
  the clamp of the claim gives 0. (\<open>gapScore_matches_spec\<close> below: the two agree when
  no outcome and no metric is produced twice and the mean gap is not negative.)
\<close>

theorem gapScore_negative_target:
  "\<exists>r. calculateIntentionRealityGap negative_target_store ''I1'' = Inr (Some r)
       \<and> gapScore r = - 125 \<and> spec_gap negative_target_store ''I1'' = 0"
  using gap_returns [of negative_target_store "''I1''"]
  by (auto simp add: spec_gap_def neg_doc neg_intended neg_actual neg_metrics neg_raw neg_spec)

subsection \<open>The average metric gap\<close>

lemma non_null_Cons: "non_null (v # vs) = (case v of None \<Rightarrow> [] | Some x \<Rightarrow> [x]) @ non_null vs"
  by (simp add: non_null_def)

lemma non_null_Nil: "non_null [] = []"
  by (simp add: non_null_def)

lemma non_null_metricGaps: "non_null (metricGaps ms) = map metricGap (qualifying ms)"
proof (induction ms)
  case Nil
  show ?case by (simp add: metricGaps_def qualifying_def non_null_Nil)
next
  case (Cons m ms)
  have tl: "non_null (metricGaps ms) = map metricGap (qualifying ms)" by (rule Cons.IH)
  show ?case
  proof (cases "attr dtarget m \<noteq> None \<and> attr dvalue m \<noteq> None")
    case False
    then have "metricGaps (m # ms) = metricGaps ms" "qualifying (m # ms) = qualifying ms"
      by (auto simp add: metricGaps_def qualifying_def)
    with tl show ?thesis by simp
  next
    case True
    then obtain t v where tv: "attr dtarget m = Some t" "attr dvalue m = Some v" by auto
    have mg: "metricGaps (m # ms) = aql_div \<bar>v - t\<bar> t # metricGaps ms"
      using tv by (simp add: metricGaps_def num_def)
    show ?thesis
    proof (cases "t = 0")
      case True
      then have "qualifying (m # ms) = qualifying ms" using tv by (simp add: qualifying_def)
      with tl mg True show ?thesis by (simp add: non_null_Cons aql_div_def)
    next
      case False
      then have "qualifying (m # ms) = m # qualifying ms" using tv by (simp add: qualifying_def)
      with tl mg False tv show ?thesis
        by (simp add: non_null_Cons aql_div_def metricGap_def num_def)
    qed
  qed
qed

lemma avgMetricGap_cases:
  "avgMetricGap ms =
     (if qualifying ms \<noteq> [] then Some (mean (map metricGap (qualifying ms)))
      else if ms = [] then Some 0 else None)"
proof (cases "ms = []")
  case True
  then show ?thesis by (simp add: avgMetricGap_def qualifying_def)
next
  case False
  then have "avgMetricGap ms = AVG (metricGaps ms)" by (simp add: avgMetricGap_def)
  then show ?thesis using False
    by (simp add: AVG_def non_null_metricGaps mean_def)
qed

lemma num_avgMetricGap: "num (avgMetricGap ms) = mean (map metricGap (qualifying ms))"
  by (simp add: avgMetricGap_cases num_def mean_def)

lemma sc_doc: "DOCUMENT scenario_store ''initiatives'' ''I1'' = Some (I1, doc ''I1'')"
  by (simp add: scenario_store_def store_defs eval_simps)

lemma sc_metrics: "gap_metrics scenario_store (Some (I1, doc ''I1''))
   = [Some (M1, (doc ''M1'')\<lparr>dvalue := Some 50, dtarget := Some 90\<rparr>)]"
  by (simp add: gap_metrics_def scenario_store_def store_defs eval_simps)

lemma avgMetricGap_distinct:
  assumes "distinct ms"
  shows "num (avgMetricGap ms) = spec_avgMetricGap ms"
proof -
  have r: "remdups ms = ms" using assms by (rule distinct_remdups_id)
  show ?thesis unfolding num_avgMetricGap spec_avgMetricGap_def r by (rule refl)
qed

lemma gapScore_matches_spec:
  assumes "distinct actual" and "distinct ms" and "0 \<le> spec_avgMetricGap ms"
  shows "min (rawGapScore intended actual ms) 100 = spec_gapScore intended actual ms"
proof -
  have a: "remdups actual = actual"
    using assms(1) by (rule distinct_remdups_id)
  have m: "num (avgMetricGap ms) = spec_avgMetricGap ms"
    using assms(2) by (rule avgMetricGap_distinct)
  have "0 \<le> rawGapScore intended actual ms"
    using assms(3) by (simp add: rawGapScore_def m)
  moreover have "spec_gapScore intended actual ms = clamp (rawGapScore intended actual ms) 0 100"
    by (simp add: spec_gapScore_def rawGapScore_def a m)
  ultimately show ?thesis
    by (simp add: clamp_def)
qed

subsection \<open>A metric measured twice\<close>

lemma mt_doc: "DOCUMENT measured_twice_store ''initiatives'' ''I1'' = Some (I1, doc ''I1'')"
  by (simp add: measured_twice_store_def store_defs eval_simps)

lemma mt_metrics:
  "gap_metrics measured_twice_store (Some (I1, doc ''I1'')) = [MA_vertex, MA_vertex, MB_vertex]"
  by (simp add: gap_metrics_def measured_twice_store_def store_defs eval_simps
      MA_def MB_def MA_vertex_def MB_vertex_def)

lemma mt_intended: "gap_intended measured_twice_store (Some (I1, doc ''I1'')) = []"
  by (simp add: gap_intended_def measured_twice_store_def store_defs eval_simps)

lemma mt_actual: "gap_actual measured_twice_store (Some (I1, doc ''I1'')) = []"
  by (simp add: gap_actual_def measured_twice_store_def store_defs eval_simps)

lemma mt_avg: "avgMetricGap [MA_vertex, MA_vertex, MB_vertex] = Some (2 / 5)"
  by (simp add: avgMetricGap_def metricGaps_def AVG_def non_null_Nil non_null_Cons aql_div_def
      attr_def num_def MA_vertex_def MB_vertex_def doc_def)

lemma mt_remdups: "remdups [MA_vertex, MA_vertex, MB_vertex] = [MA_vertex, MB_vertex]"
  by (simp add: MA_vertex_def MB_vertex_def MA_def MB_def)

lemma mt_spec_avg: "spec_avgMetricGap [MA_vertex, MA_vertex, MB_vertex] = 1 / 2"
  unfolding spec_avgMetricGap_def mt_remdups
  by (simp add: qualifying_def metricGap_def mean_def attr_def num_def MA_vertex_def
      MB_vertex_def doc_def)

lemma mt_raw: "rawGapScore [] [] [MA_vertex, MA_vertex, MB_vertex] = 45"
  unfolding rawGapScore_def mt_avg by (simp add: num_def)

lemma mt_spec: "spec_gapScore [] [] [MA_vertex, MA_vertex, MB_vertex] = 50"
  unfolding spec_gapScore_def mt_spec_avg by (simp add: clamp_def)

text \<open>
  Claim C2: in \<^verbatim>\<open>calculateIntentionRealityGap\<close>, \<^verbatim>\<open>avgMetricGap\<close> is the mean of
  \<open>|m.value - m.target| / m.target\<close> over exactly the set of hop-1 \<^verbatim>\<open>measures\<close>-reachable
  metrics that have value and target set, those with target 0 excluded, and 0 when that set
  is empty. The query averages the rows of the traversal, one per \<^verbatim>\<open>measures\<close> edge, as
  its other traversals do (C4): for the initiative of \<open>measured_twice_store\<close>, with two
  edges to MA (gap 0.2) and one to MB (gap 0.8), it averages 0.2, 0.2 and 0.8 to 0.4 and
  returns the gap score \<open>0.4 * 50 + 25 = 45\<close>, where the mean over the two metrics is 0.5
  and the score 50. (\<open>avgMetricGap_distinct\<close> above: the two means agree whenever no
  metric is produced twice; metrics with target 0 are left out and an empty set counts
  as 0 in the score, \<open>num_avgMetricGap\<close>.)
\<close>

theorem metric_counted_per_edge:
  "\<exists>r. calculateIntentionRealityGap measured_twice_store ''I1'' = Inr (Some r)
       \<and> gap_metrics measured_twice_store (DOCUMENT measured_twice_store ''initiatives'' ''I1'')
           = [MA_vertex, MA_vertex, MB_vertex]
       \<and> avgMetricGap (gap_metrics measured_twice_store
                         (DOCUMENT measured_twice_store ''initiatives'' ''I1'')) = Some (2 / 5)
       \<and> spec_avgMetricGap (gap_metrics measured_twice_store
                         (DOCUMENT measured_twice_store ''initiatives'' ''I1'')) = 1 / 2
       \<and> gapScore r = 45
       \<and> spec_gap measured_twice_store ''I1'' = 50"
proof -
  from gap_returns [of measured_twice_store "''I1''"] obtain r where
    r: "calculateIntentionRealityGap measured_twice_store ''I1'' = Inr (Some r)"
    "gapScore r = min 45 100"
    unfolding mt_doc mt_intended mt_actual mt_metrics mt_raw by blast
  have score: "gapScore r = 45" using r(2) by simp
  have spec: "spec_gap measured_twice_store ''I1'' = 50"
    unfolding spec_gap_def Let_def mt_doc mt_intended mt_actual mt_metrics by (rule mt_spec)
  show ?thesis
    unfolding mt_doc mt_metrics mt_avg mt_spec_avg
    using r(1) score spec by (intro exI [of _ r]) simp
qed

subsection \<open>Outcomes reached along several paths\<close>

lemma lt_doc: "DOCUMENT linked_twice_store ''initiatives'' ''I1'' = Some (I1, doc ''I1'')"
  by (simp add: linked_twice_store_def store_defs eval_simps)

lemma lt_actual: "gap_actual linked_twice_store (Some (I1, doc ''I1'')) =
    [Some (O1, (doc ''O1'')\<lparr>dtype := Some ''unintended''\<rparr>),
     Some (O1, (doc ''O1'')\<lparr>dtype := Some ''unintended''\<rparr>)]"
  by (simp add: gap_actual_def linked_twice_store_def store_defs eval_simps)

lemma lt_intended: "gap_intended linked_twice_store (Some (I1, doc ''I1'')) = []"
  by (simp add: gap_intended_def linked_twice_store_def store_defs eval_simps)

lemma lt_metrics: "gap_metrics linked_twice_store (Some (I1, doc ''I1'')) = []"
  by (simp add: gap_metrics_def linked_twice_store_def store_defs eval_simps)

lemma lt_sibling: "map v_id (findUnintendedConsequences linked_twice_store ''I1'') = [Some O1]"
  by (simp add: findUnintendedConsequences_def linked_twice_store_def store_defs eval_simps v_id_def)

lemma distinct_findUnintendedConsequences: "distinct (findUnintendedConsequences s k)"
  by (simp add: findUnintendedConsequences_def)

text \<open>
  Claim C4: every bounded-depth reachability query returns distinct vertices, a vertex
  reachable along several paths appearing once. \<^verbatim>\<open>findUnintendedConsequences\<close> does
  (\<^verbatim>\<open>RETURN DISTINCT v\<close>, \<open>distinct_findUnintendedConsequences\<close>); the traversals of
  \<^verbatim>\<open>calculateIntentionRealityGap\<close> return one row per path. For the initiative of
  \<open>linked_twice_store\<close>, linked twice to the one outcome O1, the actual outcomes are
  O1 twice and the gap score is \<open>2 * 10 + 25 = 45\<close>, while \<^verbatim>\<open>findUnintendedConsequences\<close>
  returns O1 once.
\<close>

theorem outcome_counted_per_path:
  "\<exists>r. calculateIntentionRealityGap linked_twice_store ''I1'' = Inr (Some r)
       \<and> map v_id (actualOutcomes r) = [Some O1, Some O1]
       \<and> \<not> distinct (actualOutcomes r)
       \<and> gapScore r = 45
       \<and> map v_id (findUnintendedConsequences linked_twice_store ''I1'') = [Some O1]"
proof -
  obtain r where r: "calculateIntentionRealityGap linked_twice_store ''I1'' = Inr (Some r)"
      "actualOutcomes r = gap_actual linked_twice_store (Some (I1, doc ''I1''))"
      "gapScore r = min (rawGapScore (gap_intended linked_twice_store (Some (I1, doc ''I1'')))
                                      (gap_actual linked_twice_store (Some (I1, doc ''I1'')))
                                      (gap_metrics linked_twice_store (Some (I1, doc ''I1'')))) 100"
    using gap_returns [of linked_twice_store "''I1''"] unfolding lt_doc by blast
  have ids: "map v_id (actualOutcomes r) = [Some O1, Some O1]"
    using r(2) lt_actual by (simp add: v_id_def)
  have len: "length (actualOutcomes r) = 2"
    using r(2) lt_actual by simp
  have nd: "\<not> distinct (actualOutcomes r)"
    using r(2) lt_actual by simp
  have "gapScore r = 45"
    using r(2) r(3) len by (simp add: lt_intended lt_metrics rawGapScore_def avgMetricGap_def num_def)
  with r(1) ids nd lt_sibling show ?thesis
    by (intro exI [of _ r]) simp
qed

subsection \<open>Identifiers that do not resolve\<close>

lemma synergy_returns:
  "\<exists>r. calculateDepartmentSynergy s k = Inr (Some r)
       \<and> department r = DOCUMENT s ''departments'' k"
  by (simp add: calculateDepartmentSynergy_def synergy_query_def first_or_null_def Let_def)

lemma TRAVERSAL_null: "TRAVERSAL s n dir None E = []"
  by (simp add: TRAVERSAL_def)

lemma gap_null:
  "gap_intended s None = []" "gap_actual s None = []" "gap_metrics s None = []"
  by (simp_all add: gap_intended_def gap_actual_def gap_metrics_def TRAVERSAL_null)

lemma rawGapScore_nothing: "rawGapScore [] [] [] = 25"
  by (simp add: rawGapScore_def avgMetricGap_def num_def)

text \<open>
  Claim C5, amended: neither \<^verbatim>\<open>calculateIntentionRealityGap\<close> nor
  \<^verbatim>\<open>calculateDepartmentSynergy\<close> raises, whether or not the identifier resolves: each
  returns a row. For an initiative identifier that does not resolve, the row has a
  \<open>null\<close> identifier, no outcomes and the gap score 25; for a department identifier
  that does not resolve, the row's department is \<open>null\<close>.
\<close>

theorem no_NotFoundError:
  "(\<exists>r. calculateIntentionRealityGap s k = Inr (Some r)
        \<and> (DOCUMENT s ''initiatives'' k = None \<longrightarrow>
             initiativeId r = None \<and> actualOutcomes r = [] \<and> gapScore r = 25))
   \<and> (\<exists>r. calculateDepartmentSynergy s k' = Inr (Some r)
        \<and> department r = DOCUMENT s ''departments'' k')"
proof
  obtain r where r: "calculateIntentionRealityGap s k = Inr (Some r)"
      "gapScore r = min (rawGapScore (gap_intended s (DOCUMENT s ''initiatives'' k))
                                      (gap_actual s (DOCUMENT s ''initiatives'' k))
                                      (gap_metrics s (DOCUMENT s ''initiatives'' k))) 100"
      "actualOutcomes r = gap_actual s (DOCUMENT s ''initiatives'' k)"
      "initiativeId r = v_key (DOCUMENT s ''initiatives'' k)"
    using gap_returns [of s k] by blast
  have "DOCUMENT s ''initiatives'' k = None \<longrightarrow>
          initiativeId r = None \<and> actualOutcomes r = [] \<and> gapScore r = 25"
  proof
    assume none: "DOCUMENT s ''initiatives'' k = None"
    show "initiativeId r = None \<and> actualOutcomes r = [] \<and> gapScore r = 25"
      using r(2-4) unfolding none by (simp add: gap_null rawGapScore_nothing v_key_def)
  qed
  with r(1) show "\<exists>r. calculateIntentionRealityGap s k = Inr (Some r)
        \<and> (DOCUMENT s ''initiatives'' k = None \<longrightarrow>
             initiativeId r = None \<and> actualOutcomes r = [] \<and> gapScore r = 25)"
    by (intro exI [of _ r]) simp
next
  show "\<exists>r. calculateDepartmentSynergy s k' = Inr (Some r)
        \<and> department r = DOCUMENT s ''departments'' k'"
    by (rule synergy_returns)
qed

lemma ghost_initiative: "DOCUMENT scenario_store ''initiatives'' ''ghost'' = None"
  by (simp add: scenario_store_def store_defs eval_simps)

lemma ghost_department: "DOCUMENT scenario_store ''departments'' ''ghost'' = None"
  by (simp add: scenario_store_def store_defs eval_simps)

text \<open>
  The claim as stated fails: with an identifier that resolves to nothing, neither operation
  fails with \<open>NotFoundError\<close>.
\<close>

theorem NotFoundError_counterexample:
  "DOCUMENT scenario_store ''initiatives'' ''ghost'' = None
   \<and> calculateIntentionRealityGap scenario_store ''ghost'' \<noteq> Inl NotFoundError
   \<and> DOCUMENT scenario_store ''departments'' ''ghost'' = None
   \<and> calculateDepartmentSynergy scenario_store ''ghost'' \<noteq> Inl NotFoundError"
  by (simp add: ghost_initiative ghost_department calculateIntentionRealityGap_def
      calculateDepartmentSynergy_def)

theorem no_NotFoundError_witness:
  "DOCUMENT scenario_store ''initiatives'' ''ghost'' = None
   \<and> (\<exists>r. calculateIntentionRealityGap scenario_store ''ghost'' = Inr (Some r)
          \<and> initiativeId r = None \<and> actualOutcomes r = [] \<and> gapScore r = 25)
   \<and> (\<exists>r. calculateDepartmentSynergy scenario_store ''ghost'' = Inr (Some r) \<and> department r = None)"
  using no_NotFoundError [of scenario_store "''ghost''" "''ghost''"]
  by (simp add: ghost_initiative ghost_department)

subsection \<open>Path strength\<close>

lemma non_null_Some: "non_null (map (\<lambda>x. Some (f x)) xs) = map f xs"
  by (induction xs) (simp_all add: non_null_Nil non_null_Cons)

lemma path_strength_prod:
  "path_strength p = prod_list (map (\<lambda>e. or_else (strength e) (1 / 2)) (p_edges p))"
  by (simp add: path_strength_def PRODUCT_def non_null_Some)

lemma reported:
  assumes "(v, p) \<in> set (causal_paths s a b d)"
  shows "report_path s a b p \<in> set (traceCausalPath s a b d)"
proof -
  have "report_path s a b (snd (v, p)) \<in> (\<lambda>r. report_path s a b (snd r)) ` set (causal_paths s a b d)"
    using assms by (rule imageI)
  then show ?thesis by (simp add: traceCausalPath_def)
qed

lemma totalStrength_report: "totalStrength (report_path s a b p) = path_strength p"
  by (simp add: report_path_def)

lemma or_else_set: "strength e = Some x \<Longrightarrow> x \<noteq> 0 \<Longrightarrow> or_else (strength e) c = num (strength e)"
  by (simp add: or_else_def num_def)

lemma or_else_unset: "strength e = None \<or> strength e = Some 0 \<Longrightarrow> or_else (strength e) c = c"
  by (auto simp add: or_else_def)

lemma product_of_set_strengths:
  assumes "\<forall>e\<in>set es. strength e \<noteq> None \<and> strength e \<noteq> Some 0"
  shows "prod_list (map (\<lambda>e. or_else (strength e) c) es) = prod_list (map (\<lambda>e. num (strength e)) es)"
  using assms
proof (induction es)
  case Nil
  show ?case by simp
next
  case (Cons e es)
  from Cons.prems obtain x where "strength e = Some x" "x \<noteq> 0" by auto
  then have "or_else (strength e) c = num (strength e)" by (rule or_else_set)
  moreover have "prod_list (map (\<lambda>e. or_else (strength e) c) es) = prod_list (map (\<lambda>e. num (strength e)) es)"
    using Cons by simp
  ultimately show ?case by simp
qed

lemma product_of_unset_strengths:
  assumes "\<forall>e\<in>set es. strength e = None \<or> strength e = Some 0"
  shows "prod_list (map (\<lambda>e. or_else (strength e) c) es) = c ^ length es"
  using assms by (induction es) (simp_all add: or_else_unset)

text \<open>
  Where every edge of a reported path has a strength that is set and not 0, the reported
  \<^verbatim>\<open>totalStrength\<close> is the product of the strengths; a two-hop path with strengths
  \<open>s1\<close> and \<open>s2\<close>, both not 0, is reported with \<open>s1 * s2\<close>.
\<close>

lemma product_law_nonzero:
  assumes "(v, p) \<in> set (causal_paths s a b d)"
  shows "report_path s a b p \<in> set (traceCausalPath s a b d)
     \<and> ((\<forall>e\<in>set (p_edges p). strength e \<noteq> None \<and> strength e \<noteq> Some 0) \<longrightarrow>
          totalStrength (report_path s a b p) = strength_product p)
     \<and> (\<forall>e1 e2 s1 s2. p_edges p = [e1, e2] \<and> strength e1 = Some s1 \<and> strength e2 = Some s2
            \<and> s1 \<noteq> 0 \<and> s2 \<noteq> 0 \<longrightarrow> totalStrength (report_path s a b p) = s1 * s2)"
proof (intro conjI impI allI)
  show "report_path s a b p \<in> set (traceCausalPath s a b d)"
    using assms by (rule reported)
next
  assume "\<forall>e\<in>set (p_edges p). strength e \<noteq> None \<and> strength e \<noteq> Some 0"
  then show "totalStrength (report_path s a b p) = strength_product p"
    by (simp add: totalStrength_report path_strength_prod strength_product_def
        product_of_set_strengths)
next
  fix e1 e2 s1 s2
  assume "p_edges p = [e1, e2] \<and> strength e1 = Some s1 \<and> strength e2 = Some s2
            \<and> s1 \<noteq> 0 \<and> s2 \<noteq> 0"
  then show "totalStrength (report_path s a b p) = s1 * s2"
    by (simp add: totalStrength_report path_strength_prod or_else_def)
qed

text \<open>
  Claim C10: in every path that \<^verbatim>\<open>traceCausalPath\<close> reports, an edge whose strength is
  absent, \<open>null\<close> or exactly 0 contributes the factor 0.5 to \<^verbatim>\<open>totalStrength\<close>, every
  other edge its strength; so a path of such edges only has total strength
  \<open>0.5 ^ (number of edges)\<close>, which is strictly positive.
\<close>

theorem unset_strength_counts_half:
  assumes "(v, p) \<in> set (causal_paths s a b d)"
  shows "report_path s a b p \<in> set (traceCausalPath s a b d)
     \<and> totalStrength (report_path s a b p) =
         prod_list (map (\<lambda>e. if strength e = None \<or> strength e = Some 0 then 1 / 2
                              else num (strength e)) (p_edges p))
     \<and> ((\<forall>e\<in>set (p_edges p). strength e = None \<or> strength e = Some 0) \<longrightarrow>
          totalStrength (report_path s a b p) = (1 / 2) ^ length p
          \<and> 0 < totalStrength (report_path s a b p))"
proof (intro conjI impI)
  show "report_path s a b p \<in> set (traceCausalPath s a b d)"
    using assms by (rule reported)
next
  have "(\<lambda>e::edge. or_else (strength e) (1 / 2)) =
          (\<lambda>e. if strength e = None \<or> strength e = Some 0 then 1 / 2 else num (strength e))"
  proof (rule ext)
    fix e :: edge
    show "or_else (strength e) (1 / 2) =
            (if strength e = None \<or> strength e = Some 0 then 1 / 2 else num (strength e))"
      by (cases "strength e") (simp_all add: or_else_def num_def)
  qed
  then show "totalStrength (report_path s a b p) =
         prod_list (map (\<lambda>e. if strength e = None \<or> strength e = Some 0 then 1 / 2
                              else num (strength e)) (p_edges p))"
    by (simp only: totalStrength_report path_strength_prod)
next
  assume unset: "\<forall>e\<in>set (p_edges p). strength e = None \<or> strength e = Some 0"
  have "length (p_edges p) = length p" by (simp add: p_edges_def)
  with unset show half: "totalStrength (report_path s a b p) = (1 / 2) ^ length p"
    by (simp add: totalStrength_report path_strength_prod product_of_unset_strengths)
  show "0 < totalStrength (report_path s a b p)"
    unfolding half by simp
qed

subsection \<open>Path strength on the example chains\<close>

lemma chain_doc: "DOCUMENT_id chain_store I1 = Some (I1, doc ''I1'')"
  by (simp add: chain_store_def store_defs eval_simps)

lemma chain_rows: "causal_paths chain_store I1 O2 5 = [(O2_vertex, chain_path)]"
  unfolding causal_paths_def chain_doc
  by (simp add: chain_store_def store_defs eval_simps v_id_def O2_vertex_def chain_path_def)

lemma chain_total_strength:
  "report_path chain_store I1 O2 chain_path \<in> set (traceCausalPath chain_store I1 O2 5)
   \<and> totalStrength (report_path chain_store I1 O2 chain_path) = (4 / 5) * (7 / 10)"
proof -
  have row: "(O2_vertex, chain_path) \<in> set (causal_paths chain_store I1 O2 5)"
    by (simp add: chain_rows)
  have strengths: "\<forall>e\<in>set (p_edges chain_path). strength e \<noteq> None \<and> strength e \<noteq> Some 0"
    by (simp add: p_edges_def chain_path_def link_def del: not_None_eq)
  have "strength_product chain_path = (4 / 5) * (7 / 10)"
    by (simp add: strength_product_def p_edges_def chain_path_def link_def num_def)
  with product_law_nonzero [OF row] strengths show ?thesis
    by simp
qed

lemma zero_doc: "DOCUMENT_id zero_strength_store I1 = Some (I1, doc ''I1'')"
  by (simp add: zero_strength_store_def store_defs eval_simps)

text \<open>
  Claim C3: for every path that \<^verbatim>\<open>traceCausalPath\<close> reports, \<^verbatim>\<open>totalStrength\<close> is the
  product of the strengths of the path's edges; a two-hop path with strengths \<open>s1\<close> and
  \<open>s2\<close> is reported with \<open>s1 * s2\<close>. The query multiplies
  \<^verbatim>\<open>edge.strength || 0.5\<close>, a default for an edge without strength, and 0 is falsy: on
  the chain with the stored strengths 0 and 0.5 (\<open>zero_strength_store\<close>; the schema of
  a causal link allows 0) the one path reported has total strength \<open>0.5 * 0.5 = 0.25\<close>,
  where the product of its strengths is \<open>0 * 0.5 = 0\<close>. (\<open>product_law_nonzero\<close> above:
  the product law holds on every path whose strengths are all set and not 0.)
\<close>

theorem zero_strength_reported:
  "map totalStrength (traceCausalPath zero_strength_store I1 O2 5) = [1 / 4]
   \<and> map (\<lambda>r. strength_product (snd r)) (causal_paths zero_strength_store I1 O2 5) = [0]"
  unfolding traceCausalPath_def causal_paths_def zero_doc
  by (simp add: zero_strength_store_def store_defs eval_simps v_id_def report_path_def
      path_strength_prod strength_product_def p_edges_def or_else_def)

lemma no_strength_doc: "DOCUMENT_id no_strength_store I1 = Some (I1, doc ''I1'')"
  by (simp add: no_strength_store_def store_defs eval_simps)

lemma no_strength_rows: "causal_paths no_strength_store I1 O2 5 = [(O2_vertex, no_strength_path)]"
  unfolding causal_paths_def no_strength_doc
  by (simp add: no_strength_store_def store_defs eval_simps v_id_def O2_vertex_def no_strength_path_def)

theorem unset_strength_counts_half_witness:
  "report_path no_strength_store I1 O2 no_strength_path \<in> set (traceCausalPath no_strength_store I1 O2 5)
   \<and> totalStrength (report_path no_strength_store I1 O2 no_strength_path) = 1 / 4
   \<and> 0 < totalStrength (report_path no_strength_store I1 O2 no_strength_path)"
proof -
  have row: "(O2_vertex, no_strength_path) \<in> set (causal_paths no_strength_store I1 O2 5)"
    by (simp add: no_strength_rows)
  have strengths: "\<forall>e\<in>set (p_edges no_strength_path). strength e = None \<or> strength e = Some 0"
    by (simp add: p_edges_def no_strength_path_def link_def)
  have "((1::rat) / 2) ^ length no_strength_path = 1 / 4"
    by (simp add: no_strength_path_def power2_eq_square)
  with unset_strength_counts_half [OF row] strengths show ?thesis
    by simp
qed

subsection \<open>Department synergy\<close>

lemma non_null_filter: "non_null (map f (filter (\<lambda>x. f x \<noteq> None) xs)) = non_null (map f xs)"
  by (induction xs) (auto simp add: non_null_Nil non_null_Cons)

lemma dept_employees_members: "dept_employees s (Some (i, d)) = department_members d (employees s)"
  by (simp add: dept_employees_def department_members_def attr_def)

lemma dept_initiatives_members: "dept_initiatives s (Some (i, d)) = department_members d (initiatives s)"
  by (simp add: dept_initiatives_def department_members_def attr_def)

lemma avg_defined_cases:
  "avg_defined f xs =
     (if defined_scores f xs = [] then None else Some (mean (defined_scores f xs)))"
  unfolding avg_defined_def AVG_def non_null_filter
  by (simp add: mean_def defined_scores_def Let_def)

lemma num_avg_defined: "num (avg_defined f xs) = mean (defined_scores f xs)"
  by (simp add: avg_defined_cases num_def mean_def)

lemma count_with_status: "count_status st xs = with_status st xs"
  by (simp add: count_status_def with_status_def)

lemma success_rate_value:
  "success_rate c a = Some (rat_of_nat c / rat_of_nat (c + a + 1))"
proof -
  have "rat_of_nat (c + a + 1) \<noteq> 0"
    by (metis of_nat_0_eq_iff add_is_0 one_neq_zero)
  then show ?thesis by (simp add: success_rate_def aql_div_def)
qed

text \<open>
  Claim C6: for every department in the store, \<^verbatim>\<open>calculateDepartmentSynergy\<close> returns
  \<open>synergyScore = avgWellness * 0.3 + avgEngagement * 0.3 + successRatio * 40\<close>, where
  \<open>avgWellness\<close> (\<open>avgEngagement\<close>) is the mean of the wellness scores (engagement levels)
  of those employees, among the ones whose department field is the department's name,
  that have one, and 0 when there is none, and
  \<open>successRatio = completed / (completed + abandoned + 1)\<close> over the initiatives whose
  department field is the department's name; the grade is SYNERGIZED above 80, ALIGNED
  above 60, SILOED otherwise. The row also carries the number of those employees, the
  success ratio, and the two averages themselves, which are \<open>null\<close> where the score
  counts 0. The scenario of the claim (56.83, SILOED) is evaluated after the theorem,
  next to a second department of the same store.
\<close>

theorem synergy_formula:
  assumes "DOCUMENT s ''departments'' k = Some (i, d)"
  shows "\<exists>r. calculateDepartmentSynergy s k = Inr (Some r)
     \<and> department r = Some (i, d)
     \<and> employeeCount r = length (department_members d (employees s))
     \<and> avgWellness r =
         (if defined_scores dwellnessScore (department_members d (employees s)) = [] then None
          else Some (mean (defined_scores dwellnessScore (department_members d (employees s)))))
     \<and> avgEngagement r =
         (if defined_scores dengagementLevel (department_members d (employees s)) = [] then None
          else Some (mean (defined_scores dengagementLevel (department_members d (employees s)))))
     \<and> initiativeSuccessRate r = Some (spec_successRatio s d)
     \<and> synergyScore r = spec_synergyScore s d
     \<and> synergyGrade r = spec_grade (spec_synergyScore s d)"
proof -
  have rate: "success_rate (with_status ''completed'' (department_members d (initiatives s)))
                           (with_status ''abandoned'' (department_members d (initiatives s)))
                = Some (spec_successRatio s d)"
    unfolding spec_successRatio_def by (rule success_rate_value)
  have score: "num (avg_defined dwellnessScore (department_members d (employees s))) * (3 / 10)
               + num (avg_defined dengagementLevel (department_members d (employees s))) * (3 / 10)
               + num (Some (spec_successRatio s d)) * 40 = spec_synergyScore s d"
    unfolding num_avg_defined spec_synergyScore_def by (simp add: num_def)
  show ?thesis
    unfolding calculateDepartmentSynergy_def synergy_query_def Let_def assms
      dept_employees_members dept_initiatives_members count_with_status rate score
    by (simp add: first_or_null_def avg_defined_cases grade_def spec_grade_def)
qed


lemma d1_doc: "DOCUMENT department_store ''departments'' ''D1'' = Some ((''departments'', ''D1''), D1_doc)"
  by (simp add: department_store_def D1_doc_def D2_doc_def store_defs eval_simps)

lemma d2_doc: "DOCUMENT department_store ''departments'' ''D2'' = Some ((''departments'', ''D2''), D2_doc)"
  by (simp add: department_store_def D1_doc_def D2_doc_def store_defs eval_simps)

lemma d1_employees:
  "map dkey (department_members D1_doc (employees department_store)) = [''E1'', ''E2'']"
  by (simp add: department_members_def department_store_def D1_doc_def store_defs)

lemma d1_wellness:
  "defined_scores dwellnessScore (department_members D1_doc (employees department_store)) = [80, 70]"
  by (simp add: defined_scores_def department_members_def department_store_def D1_doc_def
      store_defs non_null_Nil non_null_Cons)

lemma d1_engagement:
  "defined_scores dengagementLevel (department_members D1_doc (employees department_store)) = [75, 65]"
  by (simp add: defined_scores_def department_members_def department_store_def D1_doc_def
      store_defs non_null_Nil non_null_Cons)

lemma d1_ratio: "spec_successRatio department_store D1_doc = 1 / 3"
  by (simp add: spec_successRatio_def with_status_def department_members_def
      department_store_def D1_doc_def store_defs)

lemma d1_score: "spec_synergyScore department_store D1_doc = 341 / 6"
  unfolding spec_synergyScore_def d1_wellness d1_engagement d1_ratio by (simp add: mean_def)

lemma d2_employees:
  "map dkey (department_members D2_doc (employees department_store)) = [''E3'', ''E4'']"
  by (simp add: department_members_def department_store_def D2_doc_def store_defs)

lemma d2_wellness:
  "defined_scores dwellnessScore (department_members D2_doc (employees department_store)) = [40]"
  by (simp add: defined_scores_def department_members_def department_store_def D2_doc_def
      store_defs non_null_Nil non_null_Cons)

lemma d2_engagement:
  "defined_scores dengagementLevel (department_members D2_doc (employees department_store)) = []"
  by (simp add: defined_scores_def department_members_def department_store_def D2_doc_def
      store_defs non_null_Nil non_null_Cons)

lemma d2_ratio: "spec_successRatio department_store D2_doc = 1 / 2"
  by (simp add: spec_successRatio_def with_status_def department_members_def
      department_store_def D2_doc_def store_defs)

lemma d2_score: "spec_synergyScore department_store D2_doc = 32"
  unfolding spec_synergyScore_def d2_wellness d2_engagement d2_ratio by (simp add: mean_def)

theorem synergy_formula_witness:
  "\<exists>r1 r2. calculateDepartmentSynergy department_store ''D1'' = Inr (Some r1)
       \<and> employeeCount r1 = 2
       \<and> avgWellness r1 = Some 75 \<and> avgEngagement r1 = Some 70
       \<and> initiativeSuccessRate r1 = Some (1 / 3)
       \<and> synergyScore r1 = 75 * (3 / 10) + 70 * (3 / 10) + (1 / 3) * 40
       \<and> \<bar>synergyScore r1 - 5683 / 100\<bar> < 1 / 100
       \<and> synergyGrade r1 = ''SILOED''
       \<and> calculateDepartmentSynergy department_store ''D2'' = Inr (Some r2)
       \<and> employeeCount r2 = 2
       \<and> avgWellness r2 = Some 40 \<and> avgEngagement r2 = None
       \<and> initiativeSuccessRate r2 = Some (1 / 2)
       \<and> synergyScore r2 = 40 * (3 / 10) + 0 * (3 / 10) + (1 / 2) * 40
       \<and> synergyGrade r2 = ''SILOED''"
proof -
  have n1: "length (department_members D1_doc (employees department_store)) = 2"
    using d1_employees by (metis length_map length_Cons list.size(3) numeral_2_eq_2)
  have n2: "length (department_members D2_doc (employees department_store)) = 2"
    using d2_employees by (metis length_map length_Cons list.size(3) numeral_2_eq_2)
  from synergy_formula [OF d1_doc] obtain r1 where
    r1: "calculateDepartmentSynergy department_store ''D1'' = Inr (Some r1)"
    "employeeCount r1 = 2" "avgWellness r1 = Some (mean [80, 70])"
    "avgEngagement r1 = Some (mean [75, 65])" "initiativeSuccessRate r1 = Some (1 / 3)"
    "synergyScore r1 = 341 / 6" "synergyGrade r1 = spec_grade (341 / 6)"
    unfolding d1_wellness d1_engagement d1_ratio d1_score n1 by auto
  from synergy_formula [OF d2_doc] obtain r2 where
    r2: "calculateDepartmentSynergy department_store ''D2'' = Inr (Some r2)"
    "employeeCount r2 = 2" "avgWellness r2 = Some (mean [40])"
    "avgEngagement r2 = None" "initiativeSuccessRate r2 = Some (1 / 2)"
    "synergyScore r2 = 32" "synergyGrade r2 = spec_grade 32"
    unfolding d2_wellness d2_engagement d2_ratio d2_score n2 by auto
  show ?thesis
    using r1 r2 by (intro exI [of _ r1] exI [of _ r2]) (simp add: mean_def spec_grade_def)
qed

subsection \<open>Gameable metrics\<close>

lemma gameable_spec: "gameable th m = spec_gameable th m"
proof (cases "dtarget m")
  case None
  then show ?thesis by (simp add: gameable_def spec_gameable_def)
next
  case (Some t)
  show ?thesis
  proof (cases "dvalue m")
    case None
    then show ?thesis by (simp add: gameable_def spec_gameable_def)
  next
    case (Some v)
    with \<open>dtarget m = Some t\<close> show ?thesis
      by (simp add: gameable_def spec_gameable_def metric_gap_def aql_div_def aql_gt_def num_def)
  qed
qed

lemma spec_gameable_gap:
  assumes "spec_gameable th m"
  shows "metric_gap m = Some (\<bar>num (dvalue m) - num (dtarget m)\<bar> / num (dtarget m))"
proof -
  from assms obtain t where "dtarget m = Some t" "t \<noteq> 0"
    by (auto simp add: spec_gameable_def)
  then show ?thesis by (simp add: metric_gap_def aql_div_def num_def)
qed

lemma suspicion_level:
  "suspicion (Some g) = (case highest_cleared g of Some l \<Rightarrow> l | None \<Rightarrow> ''MODERATE'')"
  by (simp add: suspicion_def highest_cleared_def aql_gt_def)

lemma gameable_sorted:
  "sorted_wrt (\<lambda>x y. num (gap y) \<le> num (gap x)) (findGameableMetrics s th)"
proof -
  have "sorted (map (\<lambda>r. - num (gap r)) (findGameableMetrics s th))"
    unfolding findGameableMetrics_def by (rule sorted_sort_key)
  then show ?thesis by (simp add: sorted_map)
qed

text \<open>
  Claim C7: \<^verbatim>\<open>findGameableMetrics\<close> returns one row for exactly the metrics that have
  value and target set, a target other than 0 and a gap \<open>|value - target| / target\<close> above
  the threshold; the rows are sorted by descending gap; each row carries that gap and the
  suspicion level of the highest of the thresholds 0.5 (MODERATE), 0.7 (HIGH), 0.9 (EXTREME)
  that the gap clears, MODERATE also when it clears none (which a threshold below 0.5
  allows, as in the scenario of the claim, evaluated after the theorem).
\<close>

theorem gameable_metrics:
  "mset (findGameableMetrics s th) =
     mset (map (gameable_row s) (filter (spec_gameable th) (metrics s)))
   \<and> sorted_wrt (\<lambda>x y. num (gap y) \<le> num (gap x)) (findGameableMetrics s th)
   \<and> (\<forall>m. spec_gameable th m \<longrightarrow>
         metric (gameable_row s m) = metric_vertex m
         \<and> gap (gameable_row s m) = Some (\<bar>num (dvalue m) - num (dtarget m)\<bar> / num (dtarget m))
         \<and> suspicionLevel (gameable_row s m) =
             (case highest_cleared (\<bar>num (dvalue m) - num (dtarget m)\<bar> / num (dtarget m)) of
                Some l \<Rightarrow> l | None \<Rightarrow> ''MODERATE''))"
proof (intro conjI allI impI)
  have "gameable th = spec_gameable th"
    by (rule ext) (rule gameable_spec)
  then have "filter (gameable th) (metrics s) = filter (spec_gameable th) (metrics s)"
    by simp
  then show "mset (findGameableMetrics s th) =
     mset (map (gameable_row s) (filter (spec_gameable th) (metrics s)))"
    by (simp add: findGameableMetrics_def)
next
  show "sorted_wrt (\<lambda>x y. num (gap y) \<le> num (gap x)) (findGameableMetrics s th)"
    by (rule gameable_sorted)
next
  fix m assume "spec_gameable th m"
  show "metric (gameable_row s m) = metric_vertex m"
    by (simp add: gameable_row_def)
next
  fix m assume "spec_gameable th m"
  then show "gap (gameable_row s m) = Some (\<bar>num (dvalue m) - num (dtarget m)\<bar> / num (dtarget m))"
    by (simp add: gameable_row_def spec_gameable_gap)
next
  fix m assume "spec_gameable th m"
  then have "metric_gap m = Some (\<bar>num (dvalue m) - num (dtarget m)\<bar> / num (dtarget m))"
    by (rule spec_gameable_gap)
  then show "suspicionLevel (gameable_row s m) =
             (case highest_cleared (\<bar>num (dvalue m) - num (dtarget m)\<bar> / num (dtarget m)) of
                Some l \<Rightarrow> l | None \<Rightarrow> ''MODERATE'')"
    by (simp add: gameable_row_def suspicion_level)
qed

lemma M2_low: "spec_gameable (1 / 20) M2_doc"
  by (simp add: spec_gameable_def M2_doc_def doc_def num_def)

lemma M2_default: "\<not> spec_gameable (1 / 2) M2_doc"
  by (simp add: spec_gameable_def M2_doc_def doc_def num_def)

lemma M2_gap: "\<bar>num (dvalue M2_doc) - num (dtarget M2_doc)\<bar> / num (dtarget M2_doc) = 1 / 18"
  by (simp add: M2_doc_def doc_def num_def)

theorem gameable_metrics_witness:
  "mset (findGameableMetrics metric_store (1 / 20)) = {# gameable_row metric_store M2_doc #}
   \<and> gap (gameable_row metric_store M2_doc) = Some (1 / 18)
   \<and> suspicionLevel (gameable_row metric_store M2_doc) = ''MODERATE''
   \<and> findGameableMetrics metric_store (1 / 2) = []"
proof -
  have ms: "metrics metric_store = [M2_doc]"
    by (simp add: metric_store_def empty_store_def)
  from gameable_metrics [of metric_store "1 / 20"] M2_low
  have low: "mset (findGameableMetrics metric_store (1 / 20)) = {# gameable_row metric_store M2_doc #}"
    and g: "gap (gameable_row metric_store M2_doc) = Some (1 / 18)"
    and l: "suspicionLevel (gameable_row metric_store M2_doc) =
              (case highest_cleared (1 / 18) of Some l \<Rightarrow> l | None \<Rightarrow> ''MODERATE'')"
    unfolding ms M2_gap [symmetric] by simp_all
  from gameable_metrics [of metric_store "1 / 2"] M2_default
  have "mset (findGameableMetrics metric_store (1 / 2)) = {#}"
    unfolding ms by simp
  then have none: "findGameableMetrics metric_store (1 / 2) = []" by simp
  from l have "suspicionLevel (gameable_row metric_store M2_doc) = ''MODERATE''"
    by (simp add: highest_cleared_def)
  with low g none show ?thesis by simp
qed

subsection \<open>Metric theater\<close>

lemma steps_ANY_iff:
  "st \<in> set (steps ANY E x) \<longleftrightarrow>
     fst st \<in> set E \<and>
     (efrom (fst st) = x \<and> snd st = eto (fst st)
      \<or> eto (fst st) = x \<and> efrom (fst st) \<noteq> x \<and> snd st = efrom (fst st))"
  by (cases st) (auto simp add: steps_def)

lemma neighbours_iff:
  "i \<in> set (neighbours s x) \<longleftrightarrow>
     (\<exists>e\<in>set (causal_graph s). efrom e = x \<and> i = eto e \<or> eto e = x \<and> i = efrom e)"
  by (auto simp add: neighbours_def)

lemma neighbour_of_step:
  "st \<in> set (steps ANY (causal_graph s) x) \<Longrightarrow> snd st \<in> set (neighbours s x)"
  by (auto simp add: steps_ANY_iff neighbours_iff)

lemma step_of_neighbour:
  assumes "i \<in> set (neighbours s x)"
  shows "\<exists>st\<in>set (steps ANY (causal_graph s) x). snd st = i"
proof -
  from assms obtain e where e: "e \<in> set (causal_graph s)"
    and ends: "efrom e = x \<and> i = eto e \<or> eto e = x \<and> i = efrom e"
    by (auto simp add: neighbours_iff)
  show ?thesis
  proof (cases "efrom e = x")
    case True
    with e have "(e, eto e) \<in> set (steps ANY (causal_graph s) x)"
      by (simp add: steps_ANY_iff)
    moreover have "i = eto e" using ends True by auto
    ultimately show ?thesis by force
  next
    case False
    with ends have "eto e = x" "i = efrom e" by auto
    with e False have "(e, i) \<in> set (steps ANY (causal_graph s) x)"
      by (simp add: steps_ANY_iff)
    then show ?thesis by force
  qed
qed

lemma walks_two:
  "w \<in> set (walks dir E 2 cur []) \<longleftrightarrow>
     (\<exists>st\<in>set (steps dir E cur). w = (snd st, [st]) \<or>
        (\<exists>st'\<in>set (steps dir E (snd st)).
            eid (fst st') \<noteq> eid (fst st) \<and> w = (snd st', [st, st'])))"
  by (auto simp add: numeral_2_eq_2 unused_def)

lemma same_edge:
  assumes "unique_edge_ids E" and "e \<in> set E" and "e' \<in> set E" and "eid e = eid e'"
  shows "e = e'"
proof -
  from assms(1) have "inj_on eid (set E)"
    by (simp add: unique_edge_ids_def distinct_map)
  with assms(2-4) show ?thesis by (simp add: inj_on_def)
qed

lemma back_to_start:
  assumes "st \<in> set (steps ANY E x)" and "st' \<in> set (steps ANY E (snd st))"
    and "fst st' = fst st"
  shows "snd st' = x"
  using assms by (auto simp add: steps_ANY_iff)

lemma initiative_vertex:
  "(case v_id (DOCUMENT_id s i) of None \<Rightarrow> False | Some j \<Rightarrow> fst j = ''initiatives'')
    = is_initiative s i"
  by (cases "find (\<lambda>d. dkey d = snd i) (collection s (fst i))")
     (simp_all add: DOCUMENT_id_def DOCUMENT_def v_id_def is_initiative_def)

lemma linkedInitiatives_empty:
  "(linkedInitiatives s m = []) =
     (\<forall>w\<in>set (walks ANY (causal_graph s) 2 (''metrics'', dkey m) []). \<not> is_initiative s (fst w))"
  by (simp add: linkedInitiatives_def TRAVERSAL_def metric_vertex_def filter_empty_conv
      initiative_vertex)

lemma theater_iff:
  "theater s m = (\<forall>i\<in>set (within_two_hops s (''metrics'', dkey m)). \<not> is_initiative s i)"
  by (simp add: theater_def filter_empty_conv)

lemma metric_not_initiative: "\<not> is_initiative s (''metrics'', k)"
  by (simp add: is_initiative_def)

lemma linked_iff_not_theater:
  assumes "unique_edge_ids (causal_graph s)"
  shows "(linkedInitiatives s m = []) = theater s m"
proof
  assume none: "linkedInitiatives s m = []"
  show "theater s m"
    unfolding theater_iff
  proof
    fix i assume i: "i \<in> set (within_two_hops s (''metrics'', dkey m))"
    show "\<not> is_initiative s i"
    proof
      assume init: "is_initiative s i"
      from i consider "i = (''metrics'', dkey m)"
        | "i \<in> set (neighbours s (''metrics'', dkey m))"
        | x where "x \<in> set (neighbours s (''metrics'', dkey m))" "i \<in> set (neighbours s x)"
        by (auto simp add: within_two_hops_def)
      then show False
      proof cases
        case 1
        with init show False by (simp add: metric_not_initiative)
      next
        case 2
        then obtain st where st: "st \<in> set (steps ANY (causal_graph s) (''metrics'', dkey m))"
          "snd st = i" using step_of_neighbour by blast
        then have "(i, [st]) \<in> set (walks ANY (causal_graph s) 2 (''metrics'', dkey m) [])"
          unfolding walks_two by blast
        with none init show False
          unfolding linkedInitiatives_empty by force
      next
        case 3
        then obtain st where st: "st \<in> set (steps ANY (causal_graph s) (''metrics'', dkey m))"
          "snd st = x" using step_of_neighbour by blast
        from 3 obtain st' where st': "st' \<in> set (steps ANY (causal_graph s) x)" "snd st' = i"
          using step_of_neighbour by blast
        show False
        proof (cases "eid (fst st') = eid (fst st)")
          case True
          have "fst st \<in> set (causal_graph s)" "fst st' \<in> set (causal_graph s)"
            using st(1) st'(1) by (simp_all add: steps_ANY_iff)
          with assms True have "fst st' = fst st"
            using same_edge by blast
          with st st' have "i = (''metrics'', dkey m)"
            using back_to_start by blast
          with init show False by (simp add: metric_not_initiative)
        next
          case False
          with st st' have "(i, [st, st']) \<in> set (walks ANY (causal_graph s) 2 (''metrics'', dkey m) [])"
            unfolding walks_two by blast
          with none init show False
            unfolding linkedInitiatives_empty by force
        qed
      qed
    qed
  qed
next
  assume th: "theater s m"
  show "linkedInitiatives s m = []"
    unfolding linkedInitiatives_empty
  proof
    fix w assume "w \<in> set (walks ANY (causal_graph s) 2 (''metrics'', dkey m) [])"
    then have "fst w \<in> set (within_two_hops s (''metrics'', dkey m))"
      unfolding walks_two within_two_hops_def
      using neighbour_of_step by fastforce
    with th show "\<not> is_initiative s (fst w)"
      unfolding theater_iff by blast
  qed
qed

text \<open>
  Claim C8: \<^verbatim>\<open>detectMetricTheater\<close> returns one record, with \<^verbatim>\<open>theaterScore\<close> 100, for
  exactly the metrics from which an undirected search of at most 2 hops over the edges of
  \<^verbatim>\<open>causal_graph\<close> reaches no Initiative vertex; a metric with an Initiative within 2 hops
  is absent. (The traversal of the query uses no edge twice on a path; with edge identifiers
  unique, as the database keeps them, the only walks this leaves out lead back to the
  metric itself.)
\<close>

theorem metric_theater:
  assumes "unique_edge_ids (causal_graph s)"
  shows "detectMetricTheater s =
           map (\<lambda>m. \<lparr> theater_metric = metric_vertex m, message = dname m, theaterScore = 100 \<rparr>)
               (filter (theater s) (metrics s))"
proof -
  have "(\<lambda>m. length (linkedInitiatives s m) = 0) = theater s"
    using linked_iff_not_theater [OF assms] by (intro ext) simp
  then show ?thesis by (simp add: detectMetricTheater_def)
qed


lemma theater_ids: "unique_edge_ids (causal_graph theater_store)"
  by (simp add: unique_edge_ids_def causal_graph_def theater_store_def store_defs)

lemma theater_M3: "theater theater_store (doc ''M3'')"
  by (simp add: theater_def within_two_hops_def neighbours_def causal_graph_def is_initiative_def
      theater_store_def store_defs)

lemma theater_M1: "\<not> theater theater_store (doc ''M1'')"
  by (simp add: theater_def within_two_hops_def neighbours_def causal_graph_def is_initiative_def
      theater_store_def store_defs eval_simps)

theorem metric_theater_witness:
  "unique_edge_ids (causal_graph theater_store)
   \<and> detectMetricTheater theater_store =
       [\<lparr> theater_metric = metric_vertex (doc ''M3''), message = None, theaterScore = 100 \<rparr>]"
proof -
  have "filter (theater theater_store) (metrics theater_store) = [doc ''M3'']"
    using theater_M3 theater_M1 by (simp add: theater_store_def empty_store_def)
  with metric_theater [OF theater_ids] theater_ids show ?thesis
    by (simp add: doc_def)
qed

subsection \<open>One more unintended outcome\<close>

lemma walks_extend:
  "w \<in> set (walks dir E n cur p) \<Longrightarrow>
     \<exists>q st x. snd w = p @ q @ [st] \<and> fst w = snd st \<and> st \<in> set (steps dir E x)"
proof (induction n arbitrary: cur p)
  case 0
  then show ?case by simp
next
  case (Suc n)
  from Suc.prems obtain st where st: "st \<in> set (steps dir E cur)"
    and w: "w = (snd st, p @ [st]) \<or> w \<in> set (walks dir E n (snd st) (p @ [st]))"
    by auto
  from w show ?case
  proof
    assume "w = (snd st, p @ [st])"
    with st have "snd w = p @ [] @ [st] \<and> fst w = snd st \<and> st \<in> set (steps dir E cur)" by simp
    then show ?thesis by blast
  next
    assume "w \<in> set (walks dir E n (snd st) (p @ [st]))"
    from Suc.IH [OF this] obtain q st2 x where
      "snd w = (p @ [st]) @ q @ [st2]" "fst w = snd st2" "st2 \<in> set (steps dir E x)" by blast
    then have "snd w = p @ (st # q) @ [st2] \<and> fst w = snd st2 \<and> st2 \<in> set (steps dir E x)"
      by simp
    then show ?thesis by blast
  qed
qed

lemma walks_prefix: "w \<in> set (walks dir E n cur p) \<Longrightarrow> set p \<subseteq> set (snd w)"
  using walks_extend [of w dir E n cur p] by auto

lemma walks_end: "w \<in> set (walks OUTBOUND E n cur p) \<Longrightarrow> fst w \<in> eto ` set E"
  using walks_extend [of w OUTBOUND E n cur p] by (auto simp add: steps_def)

lemma steps_append: "steps OUTBOUND (E @ E') cur = steps OUTBOUND E cur @ steps OUTBOUND E' cur"
  by (simp add: steps_def)

lemma concat_map_cong:
  "(\<And>x. x \<in> set xs \<Longrightarrow> f x = g x) \<Longrightarrow> concat (map f xs) = concat (map g xs)"
  by (induction xs) simp_all

lemma concat_map_Nil: "(\<And>x. x \<in> set xs \<Longrightarrow> f x = []) \<Longrightarrow> concat (map f xs) = []"
  by (induction xs) simp_all

lemma walks_old:
  assumes fresh: "eid e \<notin> eid ` set E"
  shows "eid e \<notin> set (map (\<lambda>x. eid (fst x)) p) \<Longrightarrow>
           filter (avoids e) (walks OUTBOUND (E @ [e]) n cur p) = walks OUTBOUND E n cur p"
proof (induction n arbitrary: cur p)
  case 0
  show ?case by simp
next
  case (Suc n)
  let ?F' = "\<lambda>st. (snd st, p @ [st]) # walks OUTBOUND (E @ [e]) n (snd st) (p @ [st])"
  let ?F = "\<lambda>st. (snd st, p @ [st]) # walks OUTBOUND E n (snd st) (p @ [st])"
  have old: "filter (avoids e) (?F' st) = ?F st"
    if "st \<in> set (filter (unused p) (steps OUTBOUND E cur))" for st
  proof -
    from that have "fst st \<in> set E" by (auto simp add: steps_def)
    with fresh have ne: "eid (fst st) \<noteq> eid e" by (metis imageI)
    with Suc.prems have p': "eid e \<notin> set (map (\<lambda>x. eid (fst x)) (p @ [st]))" by auto
    then have "avoids e (snd st, p @ [st])" by (simp add: avoids_def)
    moreover have "filter (avoids e) (walks OUTBOUND (E @ [e]) n (snd st) (p @ [st]))
                    = walks OUTBOUND E n (snd st) (p @ [st])"
      using p' by (rule Suc.IH)
    ultimately show ?thesis by simp
  qed
  have new: "filter (avoids e) (?F' st) = []"
    if "st \<in> set (filter (unused p) (steps OUTBOUND [e] cur))" for st
  proof -
    from that have st: "fst st = e" by (auto simp add: steps_def split: if_splits)
    then have "\<not> avoids e (snd st, p @ [st])" by (simp add: avoids_def)
    moreover have "\<not> avoids e w" if "w \<in> set (walks OUTBOUND (E @ [e]) n (snd st) (p @ [st]))" for w
    proof -
      from that have "st \<in> set (snd w)" using walks_prefix by fastforce
      with st show ?thesis by (force simp add: avoids_def)
    qed
    ultimately show ?thesis by (simp add: filter_empty_conv)
  qed
  have "filter (avoids e) (walks OUTBOUND (E @ [e]) (Suc n) cur p)
          = concat (map (\<lambda>st. filter (avoids e) (?F' st)) (filter (unused p) (steps OUTBOUND E cur)))
            @ concat (map (\<lambda>st. filter (avoids e) (?F' st)) (filter (unused p) (steps OUTBOUND [e] cur)))"
    by (simp add: steps_append filter_concat comp_def)
  also have "concat (map (\<lambda>st. filter (avoids e) (?F' st)) (filter (unused p) (steps OUTBOUND E cur)))
          = concat (map ?F (filter (unused p) (steps OUTBOUND E cur)))"
    by (rule concat_map_cong) (rule old)
  also have "concat (map (\<lambda>st. filter (avoids e) (?F' st)) (filter (unused p) (steps OUTBOUND [e] cur))) = []"
    by (rule concat_map_Nil) (rule new)
  finally show ?case by simp
qed


lemma steps_OUTBOUND_iff:
  "st \<in> set (steps OUTBOUND E x) \<longleftrightarrow>
     fst st \<in> set E \<and> efrom (fst st) = x \<and> snd st = eto (fst st)"
  by (cases st) (auto simp add: steps_def)

lemma find_in_append:
  "find P (xs @ ys) = (case find P xs of None \<Rightarrow> find P ys | Some x \<Rightarrow> Some x)"
  by (induction xs) simp_all

lemma lookup_other:
  assumes "i \<noteq> (''outcomes'', dkey out)"
  shows "DOCUMENT_id (add_outcome s out e) i = DOCUMENT_id s i"
proof (cases "fst i = ''outcomes''")
  case False
  then show ?thesis
    by (simp add: DOCUMENT_id_def DOCUMENT_def collection_def add_outcome_def)
next
  case True
  with assms have "dkey out \<noteq> snd i" by (cases i) auto
  then have "find (\<lambda>d. dkey d = snd i) (outcomes s @ [out]) = find (\<lambda>d. dkey d = snd i) (outcomes s)"
    by (simp add: find_in_append split: option.split)
  with True show ?thesis
    by (simp add: DOCUMENT_id_def DOCUMENT_def collection_def add_outcome_def)
qed

lemma lookup_new:
  assumes "dkey out \<notin> dkey ` set (outcomes s)"
  shows "DOCUMENT_id (add_outcome s out e) (''outcomes'', dkey out)
           = Some ((''outcomes'', dkey out), out)"
proof -
  have "\<not> (\<exists>d. d \<in> set (outcomes s) \<and> dkey d = dkey out)"
    using assms by (metis imageI)
  then have "find (\<lambda>d. dkey d = dkey out) (outcomes s) = None"
    by (simp add: find_None_iff)
  then have "find (\<lambda>d. dkey d = dkey out) (outcomes s @ [out]) = Some out"
    by (simp add: find_in_append)
  then show ?thesis
    by (simp add: DOCUMENT_id_def DOCUMENT_def collection_def add_outcome_def)
qed

lemma initiative_kept:
  "DOCUMENT (add_outcome s out e) ''initiatives'' k = DOCUMENT s ''initiatives'' k"
  by (simp add: DOCUMENT_def collection_def add_outcome_def)

lemma initiative_id: "DOCUMENT s c k = Some x \<Longrightarrow> fst x = (c, k)"
  by (auto simp add: DOCUMENT_def)

lemma walks_one: "walks dir E 1 cur [] = map (\<lambda>st. (snd st, [st])) (steps dir E cur)"
  by (simp add: unused_def)

lemma traversal_ends:
  "map fst (TRAVERSAL s n dir (Some x) E) = map (\<lambda>w. DOCUMENT_id s (fst w)) (walks dir E n (fst x) [])"
  by (simp add: TRAVERSAL_def comp_def)

lemma ends_kept:
  assumes "(''outcomes'', dkey out) \<notin> eto ` set E" and "w \<in> set (walks OUTBOUND E n c p)"
  shows "DOCUMENT_id (add_outcome s out e) (fst w) = DOCUMENT_id s (fst w)"
proof -
  from assms(2) have "fst w \<in> eto ` set E" by (rule walks_end)
  with assms(1) have "fst w \<noteq> (''outcomes'', dkey out)" by metis
  then show ?thesis by (rule lookup_other)
qed

lemma metrics_kept:
  assumes "(''outcomes'', dkey out) \<notin> eto ` set (measures s)"
  shows "gap_metrics (add_outcome s out e) v = gap_metrics s v"
proof (cases v)
  case None
  then show ?thesis by (simp add: gap_metrics_def TRAVERSAL_def)
next
  case (Some x)
  define ws where "ws = walks OUTBOUND (measures s) 1 (fst x) []"
  have m: "measures (add_outcome s out e) = measures s" by (simp add: add_outcome_def)
  have "map (\<lambda>w. DOCUMENT_id (add_outcome s out e) (fst w)) ws = map (\<lambda>w. DOCUMENT_id s (fst w)) ws"
    unfolding ws_def by (rule map_cong [OF refl]) (rule ends_kept [OF assms])
  then show ?thesis
    unfolding gap_metrics_def Some traversal_ends m ws_def .
qed

lemma filter_through:
  assumes "\<And>x. x \<in> set xs \<Longrightarrow> P x \<Longrightarrow> Q x"
  shows "filter P xs = filter P (filter Q xs)"
  using assms by (induction xs) auto

lemma length_filter_split:
  "length (filter P xs) = length (filter P (filter Q xs)) + length (filter P (filter (\<lambda>x. \<not> Q x) xs))"
  by (induction xs) auto

lemma length_filter_pos: "x \<in> set xs \<Longrightarrow> P x \<Longrightarrow> 1 \<le> length (filter P xs)"
  by (induction xs) auto

lemma intended_kept:
  assumes fresh_edge: "eid e \<notin> eid ` set (causes s)"
    and fresh_key: "dkey out \<notin> dkey ` set (outcomes s)"
    and unref: "(''outcomes'', dkey out) \<notin> eto ` set (causes s)"
    and target: "eto e = (''outcomes'', dkey out)"
    and kind: "dtype out = Some ''unintended''"
  shows "gap_intended (add_outcome s out e) v = gap_intended s v"
proof (cases v)
  case None
  then show ?thesis by (simp add: gap_intended_def TRAVERSAL_def)
next
  case (Some x)
  let ?s' = "add_outcome s out e"
  let ?T' = "\<lambda>w. attr dtype (DOCUMENT_id ?s' (fst w)) = Some ''intended''"
  let ?T = "\<lambda>w. attr dtype (DOCUMENT_id s (fst w)) = Some ''intended''"
  define ws' where "ws' = walks OUTBOUND (causes s @ [e]) 1 (fst x) []"
  define ws where "ws = walks OUTBOUND (causes s) 1 (fst x) []"
  have c: "causes ?s' = causes s @ [e]" by (simp add: add_outcome_def)
  have old: "filter (avoids e) ws' = ws"
    unfolding ws'_def ws_def using fresh_edge by (intro walks_old) simp_all
  have same: "DOCUMENT_id ?s' (fst w) = DOCUMENT_id s (fst w)" if "w \<in> set ws" for w
    using unref that unfolding ws_def by (rule ends_kept)
  have through: "avoids e w" if "w \<in> set ws'" "?T' w" for w
  proof (rule ccontr)
    assume "\<not> avoids e w"
    moreover from that(1) obtain st where st: "st \<in> set (steps OUTBOUND (causes s @ [e]) (fst x))"
      "w = (snd st, [st])" unfolding ws'_def walks_one by auto
    ultimately have "eid (fst st) = eid e" by (simp add: avoids_def)
    moreover from st(1) have "fst st \<in> set (causes s) \<or> fst st = e" "snd st = eto (fst st)"
      by (auto simp add: steps_OUTBOUND_iff)
    ultimately have "fst st = e" "snd st = eto e" using fresh_edge by (metis imageI)+
    with st(2) target have "fst w = (''outcomes'', dkey out)" by simp
    with that(2) kind lookup_new [OF fresh_key, of e] show False by (simp add: attr_def)
  qed
  have "filter ?T' ws' = filter ?T' (filter (avoids e) ws')"
    using through by (rule filter_through)
  also have "\<dots> = filter ?T' ws" by (simp only: old)
  also have "\<dots> = filter ?T ws" by (rule filter_cong [OF refl]) (simp add: same)
  finally have sel: "filter ?T' ws' = filter ?T ws" .
  have "gap_intended ?s' v = map (\<lambda>w. DOCUMENT_id ?s' (fst w)) (filter ?T' ws')"
    unfolding gap_intended_def Some traversal_ends c ws'_def by (simp only: filter_map comp_def)
  also have "\<dots> = map (\<lambda>w. DOCUMENT_id ?s' (fst w)) (filter ?T ws)" by (simp only: sel)
  also have "\<dots> = map (\<lambda>w. DOCUMENT_id s (fst w)) (filter ?T ws)"
    by (rule map_cong [OF refl]) (simp add: same)
  also have "\<dots> = gap_intended s v"
    unfolding gap_intended_def Some traversal_ends ws_def by (simp only: filter_map comp_def)
  finally show ?thesis .
qed


lemma actual_grows:
  assumes fresh_edge: "eid e \<notin> eid ` set (causes s)"
    and fresh_key: "dkey out \<notin> dkey ` set (outcomes s)"
    and unref: "(''outcomes'', dkey out) \<notin> eto ` set (causes s)"
    and target: "eto e = (''outcomes'', dkey out)"
    and kind: "dtype out = Some ''unintended''"
    and source: "efrom e = fst x \<or> (\<exists>c\<in>set (causes s). efrom c = fst x \<and> eto c = efrom e)"
  shows "length (gap_actual s (Some x)) + 1 \<le> length (gap_actual (add_outcome s out e) (Some x))"
proof -
  let ?s' = "add_outcome s out e"
  let ?A' = "\<lambda>w. attr dtype (DOCUMENT_id ?s' (fst w)) \<in> {Some ''unintended'', Some ''emergent''}"
  let ?A = "\<lambda>w. attr dtype (DOCUMENT_id s (fst w)) \<in> {Some ''unintended'', Some ''emergent''}"
  define ws' where "ws' = walks OUTBOUND (causes s @ [e]) 2 (fst x) []"
  define ws where "ws = walks OUTBOUND (causes s) 2 (fst x) []"
  have c: "causes ?s' = causes s @ [e]" by (simp add: add_outcome_def)
  have old: "filter (avoids e) ws' = ws"
    unfolding ws'_def ws_def using fresh_edge by (intro walks_old) simp_all
  have same: "DOCUMENT_id ?s' (fst w) = DOCUMENT_id s (fst w)" if "w \<in> set ws" for w
    using unref that unfolding ws_def by (rule ends_kept)
  have len': "length (gap_actual ?s' (Some x)) = length (filter ?A' ws')"
    unfolding gap_actual_def traversal_ends c ws'_def by (simp only: filter_map comp_def length_map)
  have len: "length (gap_actual s (Some x)) = length (filter ?A ws)"
    unfolding gap_actual_def traversal_ends ws_def by (simp only: filter_map comp_def length_map)
  have "filter ?A' ws = filter ?A ws"
    by (rule filter_cong [OF refl]) (simp add: same)
  then have first: "length (filter ?A' (filter (avoids e) ws')) = length (gap_actual s (Some x))"
    by (simp only: old len)
  have new_doc: "attr dtype (DOCUMENT_id ?s' (eto e)) = Some ''unintended''"
    using lookup_new [OF fresh_key, of e] target kind by (simp add: attr_def)
  have "\<exists>w\<in>set ws'. \<not> avoids e w \<and> ?A' w"
    using source
  proof
    assume "efrom e = fst x"
    then have "(e, eto e) \<in> set (steps OUTBOUND (causes s @ [e]) (fst x))"
      by (simp add: steps_OUTBOUND_iff)
    then have "(eto e, [(e, eto e)]) \<in> set ws'"
      unfolding ws'_def walks_two by force
    moreover have "\<not> avoids e (eto e, [(e, eto e)])" by (simp add: avoids_def)
    ultimately show ?thesis using new_doc by force
  next
    assume "\<exists>c\<in>set (causes s). efrom c = fst x \<and> eto c = efrom e"
    then obtain c where c: "c \<in> set (causes s)" "efrom c = fst x" "eto c = efrom e" by blast
    then have st: "(c, eto c) \<in> set (steps OUTBOUND (causes s @ [e]) (fst x))"
      by (simp add: steps_OUTBOUND_iff)
    have st': "(e, eto e) \<in> set (steps OUTBOUND (causes s @ [e]) (eto c))"
      using c(3) by (simp add: steps_OUTBOUND_iff)
    have "eid e \<noteq> eid c" using fresh_edge c(1) by (metis imageI)
    with st st' have "(eto e, [(c, eto c), (e, eto e)]) \<in> set ws'"
      unfolding ws'_def walks_two by force
    moreover have "\<not> avoids e (eto e, [(c, eto c), (e, eto e)])" by (simp add: avoids_def)
    ultimately show ?thesis using new_doc by force
  qed
  then obtain w where w: "w \<in> set ws'" "\<not> avoids e w" "?A' w" by blast
  from w(1,2) have "w \<in> set (filter (\<lambda>w. \<not> avoids e w) ws')" by simp
  from this w(3) have second: "1 \<le> length (filter ?A' (filter (\<lambda>w. \<not> avoids e w) ws'))"
    by (rule length_filter_pos [of w "filter (\<lambda>w. \<not> avoids e w) ws'" "?A'"])
  have "length (filter ?A' ws') =
          length (filter ?A' (filter (avoids e) ws'))
          + length (filter ?A' (filter (\<lambda>w. \<not> avoids e w) ws'))"
    by (rule length_filter_split [of "?A'" ws' "avoids e"])
  with first second len' show ?thesis by simp
qed

lemma min_grows:
  fixes a b :: rat
  assumes "a + 10 \<le> b"
  shows "min a 100 < min b 100 \<or> min a 100 = 100 \<and> min b 100 = 100"
  using assms by (auto simp add: min_def)

text \<open>
  Claim C9: for every store and every initiative in it, adding one more outcome of type
  unintended, reachable by a \<^verbatim>\<open>causes\<close> edge within the 1-2 hop window, either strictly
  increases the \<^verbatim>\<open>gapScore\<close> of \<^verbatim>\<open>calculateIntentionRealityGap\<close> or leaves it at 100
  when it was 100. The addition is the saving of a new outcome document (under a key that
  is new and that no \<^verbatim>\<open>causes\<close> or \<^verbatim>\<open>measures\<close> edge refers to yet) and of a new
  \<^verbatim>\<open>causes\<close> edge (under a new identifier) that leads to it from the initiative or from
  a vertex one \<^verbatim>\<open>causes\<close> hop away from it.
\<close>

theorem gap_monotone:
  assumes init: "DOCUMENT s ''initiatives'' k = Some x"
    and fresh_edge: "eid e \<notin> eid ` set (causes s)"
    and fresh_key: "dkey out \<notin> dkey ` set (outcomes s)"
    and unref: "(''outcomes'', dkey out) \<notin> eto ` set (causes s @ measures s)"
    and target: "eto e = (''outcomes'', dkey out)"
    and kind: "dtype out = Some ''unintended''"
    and source: "efrom e = (''initiatives'', k)
                 \<or> (\<exists>c\<in>set (causes s). efrom c = (''initiatives'', k) \<and> eto c = efrom e)"
  shows "\<exists>r r'. calculateIntentionRealityGap s k = Inr (Some r)
           \<and> calculateIntentionRealityGap (add_outcome s out e) k = Inr (Some r')
           \<and> (gapScore r < gapScore r' \<or> gapScore r = 100 \<and> gapScore r' = 100)"
proof -
  let ?s' = "add_outcome s out e"
  have id: "fst x = (''initiatives'', k)" using init by (rule initiative_id)
  have unref_c: "(''outcomes'', dkey out) \<notin> eto ` set (causes s)"
    and unref_m: "(''outcomes'', dkey out) \<notin> eto ` set (measures s)"
    using unref by auto
  obtain r where r: "calculateIntentionRealityGap s k = Inr (Some r)"
    "gapScore r = min (rawGapScore (gap_intended s (Some x)) (gap_actual s (Some x))
                                   (gap_metrics s (Some x))) 100"
    using gap_returns [of s k] unfolding init by blast
  obtain r' where r': "calculateIntentionRealityGap ?s' k = Inr (Some r')"
    "gapScore r' = min (rawGapScore (gap_intended ?s' (Some x)) (gap_actual ?s' (Some x))
                                    (gap_metrics ?s' (Some x))) 100"
    using gap_returns [of ?s' k] unfolding initiative_kept init by blast
  have i: "gap_intended ?s' (Some x) = gap_intended s (Some x)"
    using fresh_edge fresh_key unref_c target kind by (rule intended_kept)
  have m: "gap_metrics ?s' (Some x) = gap_metrics s (Some x)"
    using unref_m by (rule metrics_kept)
  have "length (gap_actual s (Some x)) + 1 \<le> length (gap_actual ?s' (Some x))"
    using fresh_edge fresh_key unref_c target kind source unfolding id [symmetric]
    by (rule actual_grows)
  then have "rat_of_nat (length (gap_actual s (Some x))) + 1 \<le> rat_of_nat (length (gap_actual ?s' (Some x)))"
    by (metis of_nat_le_iff of_nat_add of_nat_1)
  then have "rawGapScore (gap_intended s (Some x)) (gap_actual s (Some x)) (gap_metrics s (Some x)) + 10
        \<le> rawGapScore (gap_intended ?s' (Some x)) (gap_actual ?s' (Some x)) (gap_metrics ?s' (Some x))"
    unfolding i m by (simp add: rawGapScore_def)
  then have "gapScore r < gapScore r' \<or> gapScore r = 100 \<and> gapScore r' = 100"
    unfolding r(2) r'(2) by (rule min_grows)
  with r(1) r'(1) show ?thesis by (intro exI [of _ r] exI [of _ r']) simp
qed


subsection \<open>The scenario of the gap score\<close>

lemma sc_intended: "length (gap_intended scenario_store (Some (I1, doc ''I1''))) = 1"
  by (simp add: gap_intended_def scenario_store_def store_defs eval_simps)

lemma sc_actual: "length (gap_actual scenario_store (Some (I1, doc ''I1''))) = 1"
  by (simp add: gap_actual_def scenario_store_def store_defs eval_simps)

lemma sc_raw:
  "rawGapScore (gap_intended scenario_store (Some (I1, doc ''I1'')))
               (gap_actual scenario_store (Some (I1, doc ''I1'')))
               (gap_metrics scenario_store (Some (I1, doc ''I1''))) = 290 / 9"
  unfolding rawGapScore_def sc_intended sc_actual sc_metrics
  by (simp add: avgMetricGap_def metricGaps_def AVG_def non_null_Nil non_null_Cons aql_div_def
      attr_def num_def doc_def)

lemma scenario_gap:
  "\<exists>r. calculateIntentionRealityGap scenario_store ''I1'' = Inr (Some r)
       \<and> gapScore r = 290 / 9 \<and> \<bar>gapScore r - 322 / 10\<bar> < 1 / 10
       \<and> fst (snd (analysis r)) = ''moderate''"
proof -
  from gap_returns [of scenario_store "''I1''"] obtain r where
    r: "calculateIntentionRealityGap scenario_store ''I1'' = Inr (Some r)"
    "gapScore r = min (290 / 9) 100" "fst (snd (analysis r)) = classify (290 / 9)"
    unfolding sc_doc sc_raw by blast
  have "gapScore r = 290 / 9" using r(2) by simp
  moreover have "fst (snd (analysis r)) = ''moderate''" using r(3) by (simp add: classify_def)
  ultimately show ?thesis using r(1) by (intro exI [of _ r]) simp
qed

theorem gap_monotone_witness:
  "\<exists>r r'. calculateIntentionRealityGap scenario_store ''I1'' = Inr (Some r)
     \<and> calculateIntentionRealityGap (add_outcome scenario_store O3_doc O3_edge) ''I1'' = Inr (Some r')
     \<and> gapScore r = 290 / 9 \<and> gapScore r < gapScore r'"
proof -
  have fresh_edge: "eid O3_edge \<notin> eid ` set (causes scenario_store)"
    by (simp add: O3_edge_def scenario_store_def store_defs)
  have fresh_key: "dkey O3_doc \<notin> dkey ` set (outcomes scenario_store)"
    by (simp add: O3_doc_def scenario_store_def store_defs)
  have unref: "(''outcomes'', dkey O3_doc) \<notin> eto ` set (causes scenario_store @ measures scenario_store)"
    by (simp add: O3_doc_def scenario_store_def store_defs)
  have target: "eto O3_edge = (''outcomes'', dkey O3_doc)"
    by (simp add: O3_edge_def O3_doc_def store_defs)
  have kind: "dtype O3_doc = Some ''unintended''"
    by (simp add: O3_doc_def doc_def)
  have source: "efrom O3_edge = (''initiatives'', ''I1'')
                 \<or> (\<exists>c\<in>set (causes scenario_store). efrom c = (''initiatives'', ''I1'') \<and> eto c = efrom O3_edge)"
    by (simp add: O3_edge_def store_defs)
  from gap_monotone [OF sc_doc fresh_edge fresh_key unref target kind source]
  obtain r r' where r: "calculateIntentionRealityGap scenario_store ''I1'' = Inr (Some r)"
    and r': "calculateIntentionRealityGap (add_outcome scenario_store O3_doc O3_edge) ''I1'' = Inr (Some r')"
    and grows: "gapScore r < gapScore r' \<or> gapScore r = 100 \<and> gapScore r' = 100"
    by blast
  from scenario_gap r have score: "gapScore r = 290 / 9" by auto
  with grows have "gapScore r < gapScore r'" by simp
  with r r' score show ?thesis by (intro exI [of _ r] exI [of _ r']) simp
qed

end
